theory Spec2Isabelle
  imports Main
begin

section \<open>Values\<close>

text \<open>
  Two kinds of value occur in \<^verbatim>\<open>src/api/pokeAPI.ts\<close> and \<^verbatim>\<open>src/screens/ARScreen.tsx\<close>.

  A value the running program holds is a \<open>js\<close>: it may be \<^verbatim>\<open>undefined\<close>, at any depth
  (reading a property an object does not have gives \<^verbatim>\<open>undefined\<close>, and the source stores
  such reads into the objects it builds), and a number in it may be an infinity or negative
  zero (\<^verbatim>\<open>JSON.parse\<close> reads \<^verbatim>\<open>1e400\<close> as \<^verbatim>\<open>Infinity\<close> and \<^verbatim>\<open>-0\<close> as negative zero). No
  \<^verbatim>\<open>NaN\<close> arises: the source does no arithmetic, \<^verbatim>\<open>JSON.parse\<close> never gives one and
  \<^verbatim>\<open>Date.now()\<close> is an integer. A finite number is represented by an integer: the source
  only copies numbers, tests them for truthiness and prints them into a key or a URL.

  A \<open>json\<close> is JSON as \<^verbatim>\<open>JSON.stringify\<close> writes it: no \<^verbatim>\<open>undefined\<close>, no infinity, no negative
  zero. The texts this program keeps in AsyncStorage are of that kind. An object is the list
  of its properties in insertion order.
\<close>

datatype json = JNull | JBool bool | JNum int | JStr string
  | JArr "json list" | JObj "(string \<times> json) list"

datatype number = Finite int | MinusZero | Infinite bool

datatype js = VUndefined | VNull | VBool bool | VNum number | VStr string
  | VArr "js list" | VObj "(string \<times> js) list"

abbreviation VInt :: "int \<Rightarrow> js" where
  "VInt n \<equiv> VNum (Finite n)"

text \<open>What \<^verbatim>\<open>JSON.parse\<close> returns for a text that denotes the JSON value \<open>j\<close>.\<close>

primrec JSON_parse_value :: "json \<Rightarrow> js" where
  "JSON_parse_value JNull = VNull"
| "JSON_parse_value (JBool b) = VBool b"
| "JSON_parse_value (JNum n) = VInt n"
| "JSON_parse_value (JStr s) = VStr s"
| "JSON_parse_value (JArr xs) = VArr (map JSON_parse_value xs)"
| "JSON_parse_value (JObj fs) = VObj (map (map_prod id JSON_parse_value) fs)"

text \<open>
  \<^verbatim>\<open>JSON.stringify\<close>: \<^verbatim>\<open>undefined\<close> has no JSON text (the result is \<open>None\<close>); inside an
  array it is written as \<^verbatim>\<open>null\<close>, and a property whose value is \<^verbatim>\<open>undefined\<close> is left out.
  An infinity is written as \<^verbatim>\<open>null\<close> and negative zero as \<^verbatim>\<open>0\<close>.
\<close>

definition number_slot :: "number \<Rightarrow> json" where
  "number_slot x = (case x of Finite n \<Rightarrow> JNum n | MinusZero \<Rightarrow> JNum 0 | Infinite s \<Rightarrow> JNull)"

definition array_slot :: "json option \<Rightarrow> json" where
  "array_slot x = (case x of None \<Rightarrow> JNull | Some j \<Rightarrow> j)"

definition object_slot :: "string \<times> json option \<Rightarrow> (string \<times> json) option" where
  "object_slot p = (case snd p of None \<Rightarrow> None | Some j \<Rightarrow> Some (fst p, j))"

primrec JSON_stringify :: "js \<Rightarrow> json option" where
  "JSON_stringify VUndefined = None"
| "JSON_stringify VNull = Some JNull"
| "JSON_stringify (VBool b) = Some (JBool b)"
| "JSON_stringify (VNum x) = Some (number_slot x)"
| "JSON_stringify (VStr s) = Some (JStr s)"
| "JSON_stringify (VArr xs) = Some (JArr (map array_slot (map JSON_stringify xs)))"
| "JSON_stringify (VObj fs) =
     Some (JObj (List.map_filter object_slot (map (map_prod id JSON_stringify) fs)))"

text \<open>\<^verbatim>\<open>JSON.parse(JSON.stringify(v))\<close>, the value a cache hands back for \<open>v\<close>.\<close>

definition JSON_roundtrip :: "js \<Rightarrow> js" where
  "JSON_roundtrip v =
     (case JSON_stringify v of None \<Rightarrow> VUndefined | Some j \<Rightarrow> JSON_parse_value j)"

text \<open>
  A value that JSON can carry unchanged: no \<^verbatim>\<open>undefined\<close>, no infinity and no negative zero
  anywhere inside.
\<close>

primrec survives_json :: "js \<Rightarrow> bool" where
  "survives_json VUndefined = False"
| "survives_json VNull = True"
| "survives_json (VBool b) = True"
| "survives_json (VNum x) = (case x of Finite n \<Rightarrow> True | MinusZero \<Rightarrow> False | Infinite s \<Rightarrow> False)"
| "survives_json (VStr s) = True"
| "survives_json (VArr xs) = list_all id (map survives_json xs)"
| "survives_json (VObj fs) = list_all snd (map (map_prod id survives_json) fs)"

section \<open>The JavaScript operations the source uses\<close>

datatype error = TypeError | SyntaxError | NetworkError | StorageError | CameraError
  | Thrown string

definition then_err :: "error + 'a \<Rightarrow> ('a \<Rightarrow> error + 'b) \<Rightarrow> error + 'b" where
  "then_err r f = (case r of Inl e \<Rightarrow> Inl e | Inr x \<Rightarrow> f x)"

fun traverse :: "('a \<Rightarrow> error + 'b) \<Rightarrow> 'a list \<Rightarrow> error + 'b list" where
  "traverse f [] = Inr []"
| "traverse f (x # xs) =
     (case f x of
        Inl e \<Rightarrow> Inl e
      | Inr y \<Rightarrow> (case traverse f xs of Inl e \<Rightarrow> Inl e | Inr ys \<Rightarrow> Inr (y # ys)))"

definition nullish :: "js \<Rightarrow> bool" where
  "nullish v = (v = VUndefined \<or> v = VNull)"

fun truthy :: "js \<Rightarrow> bool" where
  "truthy VUndefined = False"
| "truthy VNull = False"
| "truthy (VBool b) = b"
| "truthy (VNum x) = (case x of Finite n \<Rightarrow> n \<noteq> 0 | MinusZero \<Rightarrow> False | Infinite s \<Rightarrow> True)"
| "truthy (VStr s) = (s \<noteq> [])"
| "truthy (VArr xs) = True"
| "truthy (VObj fs) = True"

text \<open>
  \<^verbatim>\<open>v.k\<close>, for the property names the source reads (\<^verbatim>\<open>id\<close>, \<^verbatim>\<open>name\<close>, \<^verbatim>\<open>types\<close>,
  \<^verbatim>\<open>type\<close>, \<^verbatim>\<open>abilities\<close>, \<^verbatim>\<open>ability\<close>, \<^verbatim>\<open>stats\<close>, \<^verbatim>\<open>sprites\<close>, \<^verbatim>\<open>other\<close>,
  \<^verbatim>\<open>official-artwork\<close>, \<^verbatim>\<open>front_default\<close>, \<^verbatim>\<open>species\<close>, \<^verbatim>\<open>url\<close>, \<^verbatim>\<open>weight\<close>,
  \<^verbatim>\<open>height\<close>, \<^verbatim>\<open>results\<close>): none of them is a property of a boolean, number, string or
  array, so there the read is \<^verbatim>\<open>undefined\<close>; on \<^verbatim>\<open>undefined\<close> and \<^verbatim>\<open>null\<close> it throws.
\<close>

fun get_prop :: "js \<Rightarrow> string \<Rightarrow> error + js" where
  "get_prop VUndefined k = Inl TypeError"
| "get_prop VNull k = Inl TypeError"
| "get_prop (VObj fs) k = (case map_of fs k of None \<Rightarrow> Inr VUndefined | Some v \<Rightarrow> Inr v)"
| "get_prop v k = Inr VUndefined"

text \<open>\<^verbatim>\<open>v?.k\<close>: \<^verbatim>\<open>undefined\<close> when \<open>v\<close> is \<^verbatim>\<open>undefined\<close> or \<^verbatim>\<open>null\<close>, else \<^verbatim>\<open>v.k\<close>.\<close>

definition opt_get :: "js \<Rightarrow> string \<Rightarrow> error + js" where
  "opt_get v k = (if nullish v then Inr VUndefined else get_prop v k)"

text \<open>
  \<^verbatim>\<open>v.map(f)\<close>: only an array has a \<^verbatim>\<open>map\<close> method. On \<^verbatim>\<open>undefined\<close> and \<^verbatim>\<open>null\<close> the
  property read throws, on any other value the call of a non-function does.
\<close>

fun array_items :: "js \<Rightarrow> error + js list" where
  "array_items (VArr xs) = Inr xs"
| "array_items v = Inl TypeError"

definition call_map :: "js \<Rightarrow> (js \<Rightarrow> error + js) \<Rightarrow> error + js" where
  "call_map v f =
     then_err (array_items v) (\<lambda>xs. then_err (traverse f xs) (\<lambda>ys. Inr (VArr ys)))"

text \<open>\<^verbatim>\<open>existing.push(entry)\<close>: only an array has a \<^verbatim>\<open>push\<close> method.\<close>

definition call_push :: "js \<Rightarrow> js \<Rightarrow> error + js" where
  "call_push v entry = then_err (array_items v) (\<lambda>xs. Inr (VArr (xs @ [entry])))"

text \<open>
  The text of a value inside a template literal \<^verbatim>\<open>`${v}`\<close>: decimal digits for a number,
  the elements joined by commas for an array (\<^verbatim>\<open>undefined\<close> and \<^verbatim>\<open>null\<close> elements as the
  empty text).
\<close>

definition digit :: "nat \<Rightarrow> char" where
  "digit n = ''0123456789'' ! n"

fun decimal :: "nat \<Rightarrow> string" where
  "decimal n = (if n < 10 then [digit n] else decimal (n div 10) @ [digit (n mod 10)])"

definition number_text :: "int \<Rightarrow> string" where
  "number_text i = (if i < 0 then CHR ''-'' # decimal (nat (- i)) else decimal (nat i))"

definition number_string :: "number \<Rightarrow> string" where
  "number_string x =
     (case x of
        Finite n \<Rightarrow> number_text n
      | MinusZero \<Rightarrow> ''0''
      | Infinite s \<Rightarrow> (if s then ''Infinity'' else ''-Infinity''))"

fun join_comma :: "string list \<Rightarrow> string" where
  "join_comma [] = []"
| "join_comma [s] = s"
| "join_comma (s # t # ss) = s @ '','' @ join_comma (t # ss)"

fun to_string :: "js \<Rightarrow> string" where
  "to_string VUndefined = ''undefined''"
| "to_string VNull = ''null''"
| "to_string (VBool b) = (if b then ''true'' else ''false'')"
| "to_string (VNum x) = number_string x"
| "to_string (VStr s) = s"
| "to_string (VArr xs) =
     join_comma (map (\<lambda>x. if x = VUndefined \<or> x = VNull then [] else to_string x) xs)"
| "to_string (VObj fs) = ''[object Object]''"

section \<open>The world outside: AsyncStorage, the network, the camera, the clock\<close>

text \<open>
  A string kept by AsyncStorage is only ever tested for truthiness and handed to
  \<^verbatim>\<open>JSON.parse\<close>, so it is represented by what those two do with it: the empty string
  (falsy), a non-empty string that \<^verbatim>\<open>JSON.parse\<close> rejects, or a text denoting a JSON value.
\<close>

datatype stored = Empty_text | Bad_text | Json_text json

fun JSON_parse :: "stored \<Rightarrow> error + js" where
  "JSON_parse (Json_text j) = Inr (JSON_parse_value j)"
| "JSON_parse t = Inl SyntaxError"

text \<open>
  What \<^verbatim>\<open>await fetch(url)\<close> gives: the promise rejects, or there is a response with its
  \<^verbatim>\<open>ok\<close> flag and the outcome of \<^verbatim>\<open>await response.json()\<close>: \<open>None\<close> when that rejects,
  else the value the body was parsed to. A server may send any JSON text, so that value may
  hold an infinity or negative zero; it never holds \<^verbatim>\<open>undefined\<close>, and what is proved for
  every \<open>js\<close> holds for the values without.
\<close>

datatype response = Rejected | Response bool "js option"

datatype event = Fetch string | GetItem string | SetItem string json | SetItemFailed string
  | TakePhoto | Alert string string

text \<open>
  The state is the content of AsyncStorage and the effects performed so far, oldest first.
  What the outside does at each call is given by the environment, as a function of those
  effects: the same URL may answer differently later, a read or a write of the store may
  fail (the promise rejects) at one time and not at another, a write may fail for one value
  and not for another. A write that fails leaves the store as it was. When several
  requests are pending at once, the environment decides which of them completes next
  (\<open>schedule\<close>, given the effects so far and the number of pending requests). Console output
  is not part of the state.
\<close>

record world =
  storage :: "string \<Rightarrow> stored option"
  trace :: "event list"

record env =
  net :: "event list \<Rightarrow> string \<Rightarrow> response"
  read_fails :: "event list \<Rightarrow> string \<Rightarrow> bool"
  write_fails :: "event list \<Rightarrow> string \<Rightarrow> json \<Rightarrow> bool"
  schedule :: "event list \<Rightarrow> nat \<Rightarrow> nat"
  platform_os :: string
  take_photo :: "event list \<Rightarrow> string option"
  date_now :: "event list \<Rightarrow> int"

definition getItem :: "env \<Rightarrow> string \<Rightarrow> world \<Rightarrow> (error + stored option) \<times> world" where
  "getItem env key w =
     (if read_fails env (trace w) key then Inl StorageError else Inr (storage w key),
      w\<lparr>trace := trace w @ [GetItem key]\<rparr>)"

text \<open>
  \<^verbatim>\<open>AsyncStorage.setItem(key, JSON.stringify(v))\<close>. The source stringifies objects and arrays
  only; for completeness, a value without JSON text is refused by the store.
\<close>

definition setItem :: "env \<Rightarrow> string \<Rightarrow> json option \<Rightarrow> world \<Rightarrow> (error + unit) \<times> world" where
  "setItem env key val w =
     (case val of
        None \<Rightarrow> (Inl StorageError, w\<lparr>trace := trace w @ [SetItemFailed key]\<rparr>)
      | Some j \<Rightarrow>
          if write_fails env (trace w) key j
          then (Inl StorageError, w\<lparr>trace := trace w @ [SetItemFailed key]\<rparr>)
          else (Inr (), w\<lparr>storage := (storage w)(key \<mapsto> Json_text j),
                           trace := trace w @ [SetItem key j]\<rparr>))"

definition fetch :: "env \<Rightarrow> string \<Rightarrow> world \<Rightarrow> response \<times> world" where
  "fetch env url w = (net env (trace w) url, w\<lparr>trace := trace w @ [Fetch url]\<rparr>)"

text \<open>
  The cache check both fetch functions start with:
  \<^verbatim>\<open>try { const c = await AsyncStorage.getItem(key); if (c) return JSON.parse(c); } catch (e) {}\<close>
  The result is the value returned from inside the \<^verbatim>\<open>try\<close>, or \<open>None\<close> when control
  falls through to the network.
\<close>

definition cached_value :: "error + stored option \<Rightarrow> js option" where
  "cached_value r =
     (case r of
        Inl e \<Rightarrow> None
      | Inr None \<Rightarrow> None
      | Inr (Some t) \<Rightarrow>
          if t = Empty_text then None
          else (case JSON_parse t of Inl e \<Rightarrow> None | Inr v \<Rightarrow> Some v))"

section \<open>src/api/pokeAPI.ts\<close>

definition POKEAPI_BASE_URL :: string where
  "POKEAPI_BASE_URL = ''https://pokeapi.co/api/v2''"

definition POKEMON_LIST_CACHE_KEY :: string where
  "POKEMON_LIST_CACHE_KEY = ''pokemon_list_cache_v2''"

definition POKEMON_DETAIL_CACHE_PREFIX :: string where
  "POKEMON_DETAIL_CACHE_PREFIX = ''pokemon_detail_''"

definition INITIAL_POKEMON_LIMIT :: int where
  "INITIAL_POKEMON_LIMIT = 21"

subsection \<open>fetchPokemonDetail\<close>

text \<open>
  The inner \<^verbatim>\<open>try\<close> of \<^verbatim>\<open>fetchPokemonDetail\<close>: \<^verbatim>\<open>speciesData\<close> starts as \<^verbatim>\<open>{}\<close> and is
  replaced only when \<^verbatim>\<open>fetch(detailData.species.url)\<close> and \<^verbatim>\<open>speciesResponse.json()\<close>
  both succeed (the \<^verbatim>\<open>ok\<close> flag is not looked at).
\<close>

definition fetch_species :: "env \<Rightarrow> js \<Rightarrow> world \<Rightarrow> js \<times> world" where
  "fetch_species env detailData w =
     (case then_err (get_prop detailData ''species'') (\<lambda>s. get_prop s ''url'') of
        Inl e \<Rightarrow> (VObj [], w)
      | Inr url \<Rightarrow>
          (case fetch env (to_string url) w of
             (Rejected, w1) \<Rightarrow> (VObj [], w1)
           | (Response ok body, w1) \<Rightarrow>
               (case body of
                  None \<Rightarrow> (VObj [], w1)
                | Some species \<Rightarrow> (species, w1))))"

text \<open>The object literal \<^verbatim>\<open>pokemonDetail\<close>, its properties evaluated in the order written.\<close>

definition assemble_detail :: "js \<Rightarrow> js \<Rightarrow> error + js" where
  "assemble_detail detailData speciesData =
     then_err (get_prop detailData ''id'') (\<lambda>v_id.
     then_err (get_prop detailData ''name'') (\<lambda>v_name.
     then_err (then_err (get_prop detailData ''types'') (\<lambda>ts.
       call_map ts (\<lambda>t. then_err (get_prop t ''type'') (\<lambda>ty. get_prop ty ''name'')))) (\<lambda>v_types.
     then_err (then_err (get_prop detailData ''abilities'') (\<lambda>as.
       call_map as (\<lambda>a. then_err (get_prop a ''ability'') (\<lambda>ab. get_prop ab ''name'')))) (\<lambda>v_abilities.
     then_err (get_prop detailData ''stats'') (\<lambda>v_stats.
     then_err (then_err (get_prop detailData ''sprites'') (\<lambda>sp. get_prop sp ''front_default'')) (\<lambda>v_sprite.
     then_err (get_prop detailData ''weight'') (\<lambda>v_weight.
     then_err (get_prop detailData ''height'') (\<lambda>v_height.
       Inr (VObj [(''id'', v_id), (''name'', v_name), (''types'', v_types),
                  (''abilities'', v_abilities), (''stats'', v_stats),
                  (''spriteUrl'', v_sprite), (''speciesData'', speciesData),
                  (''weight'', v_weight), (''height'', v_height)])))))))))"

definition detail_url :: "js \<Rightarrow> string" where
  "detail_url idOrName = POKEAPI_BASE_URL @ ''/pokemon/'' @ to_string idOrName"

definition detail_cache_key :: "js \<Rightarrow> string" where
  "detail_cache_key idOrName = POKEMON_DETAIL_CACHE_PREFIX @ to_string idOrName"

text \<open>
  The outer \<^verbatim>\<open>try\<close> of \<^verbatim>\<open>fetchPokemonDetail\<close>; \<open>Inl\<close> is an exception on its way to the
  \<^verbatim>\<open>catch\<close>.
\<close>

definition detail_from_network :: "env \<Rightarrow> js \<Rightarrow> string \<Rightarrow> world \<Rightarrow> (error + js) \<times> world" where
  "detail_from_network env idOrName cacheKey w =
     (case fetch env (detail_url idOrName) w of
        (Rejected, w1) \<Rightarrow> (Inl NetworkError, w1)
      | (Response ok body, w1) \<Rightarrow>
          if \<not> ok then (Inl (Thrown ''Failed to fetch Pokemon details''), w1)
          else
            (case body of
               None \<Rightarrow> (Inl SyntaxError, w1)
             | Some detailData \<Rightarrow>
                 (case fetch_species env detailData w1 of
                    (speciesData, w2) \<Rightarrow>
                      (case assemble_detail detailData speciesData of
                         Inl e \<Rightarrow> (Inl e, w2)
                       | Inr pokemonDetail \<Rightarrow>
                           (case setItem env cacheKey (JSON_stringify pokemonDetail) w2 of
                              (Inl e, w3) \<Rightarrow> (Inl e, w3)
                            | (Inr u, w3) \<Rightarrow> (Inr pokemonDetail, w3))))))"

definition fetchPokemonDetail :: "env \<Rightarrow> js \<Rightarrow> world \<Rightarrow> js \<times> world" where
  "fetchPokemonDetail env idOrName w =
     (case getItem env (detail_cache_key idOrName) w of
        (r, w1) \<Rightarrow>
          (case cached_value r of
             Some v \<Rightarrow> (v, w1)
           | None \<Rightarrow>
               (case detail_from_network env idOrName (detail_cache_key idOrName) w1 of
                  (Inl e, w2) \<Rightarrow> (VNull, w2)
                | (Inr pokemonDetail, w2) \<Rightarrow> (pokemonDetail, w2))))"

subsection \<open>fetchPokemonList\<close>

text \<open>
  \<^verbatim>\<open>listData.results.map(async (item) => await fetchPokemonDetail(item.name))\<close> starts one
  call per item, and all of them are in flight together: each call runs until it has to
  wait for the store or the network, and goes on when the request it waits for completes.
  A call in flight is a \<open>task\<close>: what it waits for, with the values it holds. One \<open>step\<close> lets
  the pending request of a task complete (its effect is recorded at that moment) and runs
  the task up to its next request; the states and the steps are those of
  \<^verbatim>\<open>fetchPokemonDetail\<close> (lemmas \<open>task_alone\<close> and \<open>batch_of_one\<close>). A task whose
  \<^verbatim>\<open>item.name\<close> throws is a promise rejected from the start; no other task rejects, since
  \<^verbatim>\<open>fetchPokemonDetail\<close> catches everything.
\<close>

datatype task =
    Await_getItem js
  | Await_primary js
  | Await_species js js js
  | Await_setItem js js
  | Settled "error + js"

text \<open>After the species block: assemble the entry and ask the store to keep it.\<close>

definition after_species :: "js \<Rightarrow> js \<Rightarrow> js \<Rightarrow> task" where
  "after_species idOrName detailData speciesData =
     (case assemble_detail detailData speciesData of
        Inl e \<Rightarrow> Settled (Inr VNull)
      | Inr pokemonDetail \<Rightarrow> Await_setItem idOrName pokemonDetail)"

definition species_payload :: "response \<Rightarrow> js" where
  "species_payload resp =
     (case resp of
        Rejected \<Rightarrow> VObj []
      | Response ok body \<Rightarrow> (case body of None \<Rightarrow> VObj [] | Some species \<Rightarrow> species))"

definition after_primary :: "js \<Rightarrow> response \<Rightarrow> task" where
  "after_primary idOrName resp =
     (case resp of
        Rejected \<Rightarrow> Settled (Inr VNull)
      | Response ok body \<Rightarrow>
          if \<not> ok then Settled (Inr VNull)
          else
            (case body of
               None \<Rightarrow> Settled (Inr VNull)
             | Some detailData \<Rightarrow>
                 (case then_err (get_prop detailData ''species'') (\<lambda>s. get_prop s ''url'') of
                    Inl e \<Rightarrow> after_species idOrName detailData (VObj [])
                  | Inr url \<Rightarrow> Await_species idOrName detailData url)))"

fun step :: "env \<Rightarrow> task \<Rightarrow> world \<Rightarrow> task \<times> world" where
  "step env (Await_getItem idOrName) w =
     (case getItem env (detail_cache_key idOrName) w of
        (r, w1) \<Rightarrow>
          (case cached_value r of
             Some v \<Rightarrow> (Settled (Inr v), w1)
           | None \<Rightarrow> (Await_primary idOrName, w1)))"
| "step env (Await_primary idOrName) w =
     (case fetch env (detail_url idOrName) w of
        (resp, w1) \<Rightarrow> (after_primary idOrName resp, w1))"
| "step env (Await_species idOrName detailData url) w =
     (case fetch env (to_string url) w of
        (resp, w1) \<Rightarrow> (after_species idOrName detailData (species_payload resp), w1))"
| "step env (Await_setItem idOrName pokemonDetail) w =
     (case setItem env (detail_cache_key idOrName) (JSON_stringify pokemonDetail) w of
        (Inl e, w1) \<Rightarrow> (Settled (Inr VNull), w1)
      | (Inr u, w1) \<Rightarrow> (Settled (Inr pokemonDetail), w1))"
| "step env (Settled r) w = (Settled r, w)"

fun steps :: "nat \<Rightarrow> env \<Rightarrow> task \<Rightarrow> world \<Rightarrow> task \<times> world" where
  "steps 0 env t w = (t, w)"
| "steps (Suc n) env t w = (case step env t w of (t1, w1) \<Rightarrow> steps n env t1 w1)"

fun pending :: "task \<Rightarrow> bool" where
  "pending (Settled r) = False"
| "pending t = True"

text \<open>The number of requests a task may still make.\<close>

fun requests_left :: "task \<Rightarrow> nat" where
  "requests_left (Await_getItem idOrName) = 4"
| "requests_left (Await_primary idOrName) = 3"
| "requests_left (Await_species idOrName detailData url) = 2"
| "requests_left (Await_setItem idOrName pokemonDetail) = 1"
| "requests_left (Settled r) = 0"

definition pending_positions :: "task list \<Rightarrow> nat list" where
  "pending_positions ts = filter (\<lambda>i. pending (ts ! i)) [0..<length ts]"

text \<open>The task whose request completes next, chosen by the environment among the pending.\<close>

definition next_position :: "env \<Rightarrow> task list \<Rightarrow> world \<Rightarrow> nat option" where
  "next_position env ts w =
     (case pending_positions ts of
        [] \<Rightarrow> None
      | p # ps \<Rightarrow>
          Some ((p # ps) ! (schedule env (trace w) (length (p # ps)) mod length (p # ps))))"

text \<open>
  The batch runs until every task has settled. The world it returns is the one in which
  all have settled, also when \<^verbatim>\<open>Promise.all\<close> rejects early because of a task rejected from
  the start.
\<close>

function run_batch :: "env \<Rightarrow> task list \<Rightarrow> world \<Rightarrow> task list \<times> world" where
  "run_batch env ts w =
     (case next_position env ts w of
        None \<Rightarrow> (ts, w)
      | Some i \<Rightarrow>
          run_batch env (ts[i := fst (step env (ts ! i) w)]) (snd (step env (ts ! i) w)))"
  by pat_completeness auto
termination
proof (relation "measure (\<lambda>(env, ts, w). sum_list (map requests_left ts))")
  show "wf (measure (\<lambda>(env, ts, w). sum_list (map requests_left ts)))" by simp
next
  fix env :: env and ts :: "task list" and w :: world and i :: nat
  assume chosen: "next_position env ts w = Some i"
  then obtain p ps where ps: "pending_positions ts = p # ps"
    and i: "i = (p # ps) ! (schedule env (trace w) (length (p # ps)) mod length (p # ps))"
    by (auto simp: next_position_def split: list.splits)
  have "i \<in> set (pending_positions ts)"
    unfolding ps i by (rule nth_mem) simp
  then have bound: "i < length ts" and pend: "pending (ts ! i)"
    by (simp_all add: pending_positions_def)
  have less: "requests_left (fst (step env (ts ! i) w)) < requests_left (ts ! i)"
    using pend
    by (cases "ts ! i")
       (auto simp: after_primary_def after_species_def case_prod_beta
          split: option.splits sum.splits response.splits)
  have "requests_left (ts ! i) \<le> sum_list (map requests_left ts)"
    using bound by (intro member_le_sum_list) (auto simp: in_set_conv_nth intro!: image_eqI)
  with less bound
  have "sum_list (map requests_left (ts[i := fst (step env (ts ! i) w)]))
      < sum_list (map requests_left ts)"
    by (simp add: map_update sum_list_update)
  then show "((env, ts[i := fst (step env (ts ! i) w)], snd (step env (ts ! i) w)), (env, ts, w))
      \<in> measure (\<lambda>(env, ts, w). sum_list (map requests_left ts))"
    by simp
qed

declare run_batch.simps [simp del]

definition start_task :: "js \<Rightarrow> task" where
  "start_task item =
     (case get_prop item ''name'' of
        Inl e \<Rightarrow> Settled (Inl e)
      | Inr name \<Rightarrow> Await_getItem name)"

text \<open>
  How the promise of a task has settled. A task of a finished batch is never pending
  (lemma \<open>run_batch_settles\<close>), so the last case is not reached.
\<close>

fun outcome :: "task \<Rightarrow> error + js" where
  "outcome (Settled r) = r"
| "outcome t = Inl (Thrown ''pending'')"

text \<open>\<^verbatim>\<open>await Promise.all(promises)\<close>: the values, or the rejection of a promise that rejected.\<close>

definition Promise_all :: "(error + js) list \<Rightarrow> error + js list" where
  "Promise_all ps = traverse (\<lambda>p. p) ps"

definition list_url :: string where
  "list_url = POKEAPI_BASE_URL @ ''/pokemon?limit='' @ number_text INITIAL_POKEMON_LIMIT
                @ ''&offset=0''"

definition list_from_network :: "env \<Rightarrow> world \<Rightarrow> (error + js) \<times> world" where
  "list_from_network env w =
     (case fetch env list_url w of
        (Rejected, w1) \<Rightarrow> (Inl NetworkError, w1)
      | (Response ok body, w1) \<Rightarrow>
          if \<not> ok then (Inl (Thrown ''Network response was not ok''), w1)
          else
            (case body of
               None \<Rightarrow> (Inl SyntaxError, w1)
             | Some listData \<Rightarrow>
                 (case then_err (get_prop listData ''results'') array_items of
                    Inl e \<Rightarrow> (Inl e, w1)
                  | Inr items \<Rightarrow>
                      (case run_batch env (map start_task items) w1 of
                         (tasks, w2) \<Rightarrow>
                           (case Promise_all (map outcome tasks) of
                              Inl e \<Rightarrow> (Inl e, w2)
                            | Inr results \<Rightarrow>
                                (case setItem env POKEMON_LIST_CACHE_KEY
                                        (JSON_stringify (VArr (filter (\<lambda>p. p \<noteq> VNull) results))) w2 of
                                   (Inl e, w3) \<Rightarrow> (Inl e, w3)
                                 | (Inr u, w3) \<Rightarrow>
                                     (Inr (VArr (filter (\<lambda>p. p \<noteq> VNull) results)), w3)))))))"

definition fetchPokemonList :: "env \<Rightarrow> world \<Rightarrow> js \<times> world" where
  "fetchPokemonList env w =
     (case getItem env POKEMON_LIST_CACHE_KEY w of
        (r, w1) \<Rightarrow>
          (case cached_value r of
             Some v \<Rightarrow> (v, w1)
           | None \<Rightarrow>
               (case list_from_network env w1 of
                  (Inl e, w2) \<Rightarrow> (VArr [], w2)
                | (Inr validResults, w2) \<Rightarrow> (validResults, w2))))"

subsection \<open>getPokemonBasic\<close>

text \<open>\<^verbatim>\<open>a || b\<close> on values already computed.\<close>

definition or_else :: "js \<Rightarrow> js \<Rightarrow> js" where
  "or_else a b = (if truthy a then a else b)"

text \<open>
  \<^verbatim>\<open>json.sprites?.other?.["official-artwork"]?.front_default\<close> and
  \<^verbatim>\<open>json.sprites?.front_default\<close>: only the first read, \<^verbatim>\<open>json.sprites\<close>, can throw.
\<close>

definition official_artwork :: "js \<Rightarrow> error + js" where
  "official_artwork json =
     then_err (get_prop json ''sprites'') (\<lambda>sp.
     then_err (opt_get sp ''other'') (\<lambda>ot.
     then_err (opt_get ot ''official-artwork'') (\<lambda>oa. opt_get oa ''front_default'')))"

definition front_default :: "js \<Rightarrow> error + js" where
  "front_default json = then_err (get_prop json ''sprites'') (\<lambda>sp. opt_get sp ''front_default'')"

definition select_sprite :: "js \<Rightarrow> error + js" where
  "select_sprite json =
     then_err (official_artwork json) (\<lambda>art.
       if truthy art then Inr art
       else then_err (front_default json) (\<lambda>front. Inr (or_else front VNull)))"

text \<open>\<^verbatim>\<open>json.types?.map((t) => t.type?.name) || []\<close>\<close>

definition basic_types :: "js \<Rightarrow> error + js" where
  "basic_types json =
     then_err (get_prop json ''types'') (\<lambda>ts.
     then_err (if nullish ts then Inr VUndefined
               else call_map ts (\<lambda>t. then_err (get_prop t ''type'') (\<lambda>ty. opt_get ty ''name'')))
       (\<lambda>m. Inr (or_else m (VArr []))))"

definition basic_of_json :: "js \<Rightarrow> error + js" where
  "basic_of_json json =
     then_err (select_sprite json) (\<lambda>sprite.
     then_err (get_prop json ''id'') (\<lambda>v_id.
     then_err (get_prop json ''name'') (\<lambda>v_name.
     then_err (basic_types json) (\<lambda>v_types.
       Inr (VObj [(''id'', v_id), (''name'', v_name), (''sprite'', sprite),
                  (''types'', v_types)])))))"

definition basic_try :: "response \<Rightarrow> error + js" where
  "basic_try resp =
     (case resp of
        Rejected \<Rightarrow> Inl NetworkError
      | Response ok body \<Rightarrow>
          if \<not> ok then Inl (Thrown ''Not found'')
          else (case body of
                  None \<Rightarrow> Inl SyntaxError
                | Some json \<Rightarrow> basic_of_json json))"

definition basic_url :: "js \<Rightarrow> string" where
  "basic_url idOrName = ''https://pokeapi.co/api/v2/pokemon/'' @ to_string idOrName"

definition getPokemonBasic :: "env \<Rightarrow> js \<Rightarrow> world \<Rightarrow> js \<times> world" where
  "getPokemonBasic env idOrName w =
     (case fetch env (basic_url idOrName) w of
        (resp, w1) \<Rightarrow>
          (case basic_try resp of
             Inl err \<Rightarrow> (VNull, w1)
           | Inr basic \<Rightarrow> (basic, w1)))"

section \<open>src/screens/ARScreen.tsx\<close>

text \<open>
  The part of the component's state that \<^verbatim>\<open>takeCapture\<close> reads: whether \<^verbatim>\<open>camera.current\<close>
  is set, \<^verbatim>\<open>selectedPokemonId\<close> and \<^verbatim>\<open>selectedPokemonSprite\<close> (\<open>None\<close> is \<^verbatim>\<open>null\<close>).
\<close>

record screen =
  camera_current :: bool
  selectedPokemonId :: int
  selectedPokemonSprite :: "string option"

definition takePhoto :: "env \<Rightarrow> world \<Rightarrow> (error + string) \<times> world" where
  "takePhoto env w =
     (case take_photo env (trace w) of None \<Rightarrow> Inl CameraError | Some path \<Rightarrow> Inr path,
      w\<lparr>trace := trace w @ [TakePhoto]\<rparr>)"

definition alert :: "string \<Rightarrow> string \<Rightarrow> world \<Rightarrow> world" where
  "alert title message w = w\<lparr>trace := trace w @ [Alert title message]\<rparr>"

definition photo_uri :: "string \<Rightarrow> string \<Rightarrow> string" where
  "photo_uri os path = (if os = ''android'' then ''file://'' @ path else path)"

definition captured_meta :: "screen \<Rightarrow> string \<Rightarrow> int \<Rightarrow> js" where
  "captured_meta scr photoUri now =
     VObj [(''id'', VInt (selectedPokemonId scr)),
           (''name'', VStr (''pokemon-'' @ to_string (VInt (selectedPokemonId scr)))),
           (''sprite'', (case selectedPokemonSprite scr of None \<Rightarrow> VNull | Some s \<Rightarrow> VStr s)),
           (''photoUri'', VStr photoUri),
           (''timestamp'', VInt now)]"

text \<open>\<^verbatim>\<open>existingRaw ? JSON.parse(existingRaw) : []\<close>\<close>

definition existing_captures :: "stored option \<Rightarrow> error + js" where
  "existing_captures existingRaw =
     (case existingRaw of
        None \<Rightarrow> Inr (VArr [])
      | Some t \<Rightarrow> if t = Empty_text then Inr (VArr []) else JSON_parse t)"

text \<open>The \<^verbatim>\<open>try\<close> block of \<^verbatim>\<open>takeCapture\<close>.\<close>

definition capture_try :: "env \<Rightarrow> screen \<Rightarrow> world \<Rightarrow> (error + unit) \<times> world" where
  "capture_try env scr w =
     (case takePhoto env w of
        (Inl e, w1) \<Rightarrow> (Inl e, w1)
      | (Inr path, w1) \<Rightarrow>
          (case getItem env ''captures'' w1 of
             (Inl e, w2) \<Rightarrow> (Inl e, w2)
           | (Inr existingRaw, w2) \<Rightarrow>
               (case then_err (existing_captures existingRaw)
                       (\<lambda>existing. call_push existing
                          (captured_meta scr (photo_uri (platform_os env) path)
                             (date_now env (trace w1)))) of
                  Inl e \<Rightarrow> (Inl e, w2)
                | Inr existing \<Rightarrow>
                    (case setItem env ''captures'' (JSON_stringify existing) w2 of
                       (Inl e, w3) \<Rightarrow> (Inl e, w3)
                     | (Inr u, w3) \<Rightarrow>
                         (Inr (), alert ''Captured!'' ''Pokemon saved to your gallery.'' w3)))))"

definition takeCapture :: "env \<Rightarrow> screen \<Rightarrow> world \<Rightarrow> world" where
  "takeCapture env scr w =
     (if \<not> camera_current scr then w
      else
        (case capture_try env scr w of
           (Inl e, w1) \<Rightarrow> alert ''Error'' ''Could not take picture. Check camera permission.'' w1
         | (Inr u, w1) \<Rightarrow> w1))"

section \<open>Vocabulary of the properties\<close>

text \<open>
  The answer to the primary request of \<^verbatim>\<open>fetchPokemonDetail\<close> called in the world \<open>w\<close> on a
  key that is not served from the cache: the request follows the cache read.
\<close>

definition primary_response :: "env \<Rightarrow> js \<Rightarrow> world \<Rightarrow> response" where
  "primary_response env idOrName w =
     net env (trace w @ [GetItem (detail_cache_key idOrName)]) (detail_url idOrName)"

text \<open>
  A fetch fails when the promise rejects, the response is not \<^verbatim>\<open>ok\<close>, or its body is not
  JSON.
\<close>

definition fetch_fails :: "response \<Rightarrow> bool" where
  "fetch_fails r = (case r of Rejected \<Rightarrow> True | Response ok body \<Rightarrow> \<not> ok \<or> body = None)"

text \<open>
  The species block of \<^verbatim>\<open>fetchPokemonDetail\<close>, run for the record \<open>d\<close> after the effects \<open>h\<close>,
  throws: the record has no \<^verbatim>\<open>species.url\<close> to read, the promise of the request rejects, or
  the body is not JSON. This is narrower than \<open>fetch_fails\<close>: the species block does not
  look at \<^verbatim>\<open>ok\<close> (the primary request does), so a species response that is not \<^verbatim>\<open>ok\<close> but
  has a JSON body does not throw, and its body becomes \<^verbatim>\<open>speciesData\<close>.
\<close>

definition species_fetch_throws :: "env \<Rightarrow> event list \<Rightarrow> js \<Rightarrow> bool" where
  "species_fetch_throws env h d =
     (case then_err (get_prop d ''species'') (\<lambda>s. get_prop s ''url'') of
        Inl e \<Rightarrow> True
      | Inr url \<Rightarrow>
          (case net env h (to_string url) of
             Rejected \<Rightarrow> True
           | Response ok body \<Rightarrow> body = None))"

text \<open>
  A well-formed primary record: \<^verbatim>\<open>types\<close> is an array of items that each have a \<^verbatim>\<open>type\<close>,
  \<^verbatim>\<open>abilities\<close> is an array of items that each have an \<^verbatim>\<open>ability\<close>, and there is a
  \<^verbatim>\<open>sprites\<close> (each neither \<^verbatim>\<open>null\<close> nor missing).
\<close>

definition has_member :: "string \<Rightarrow> js \<Rightarrow> bool" where
  "has_member k x = (case get_prop x k of Inl e \<Rightarrow> False | Inr y \<Rightarrow> \<not> nullish y)"

definition array_with_member :: "string \<Rightarrow> js \<Rightarrow> bool" where
  "array_with_member k v =
     (case array_items v of Inl e \<Rightarrow> False | Inr xs \<Rightarrow> list_all (has_member k) xs)"

definition well_formed_record :: "js \<Rightarrow> bool" where
  "well_formed_record d =
     ((case get_prop d ''types'' of Inl e \<Rightarrow> False | Inr ts \<Rightarrow> array_with_member ''type'' ts)
      \<and> (case get_prop d ''abilities'' of
            Inl e \<Rightarrow> False
          | Inr as \<Rightarrow> array_with_member ''ability'' as)
      \<and> has_member ''sprites'' d)"

text \<open>
  A trace that does not end with a successful write of the list cache: the last effect of a
  call of \<^verbatim>\<open>fetchPokemonList\<close> that did not complete with such a write.
\<close>

definition no_list_write :: "event list \<Rightarrow> bool" where
  "no_list_write t =
     (case rev t of
        [] \<Rightarrow> False
      | SetItem key j # es \<Rightarrow> key \<noteq> POKEMON_LIST_CACHE_KEY
      | e # es \<Rightarrow> True)"

text \<open>The effects of a call: what the world \<open>w'\<close> after it has added to the trace of \<open>w\<close>.\<close>

definition effects_between :: "world \<Rightarrow> world \<Rightarrow> event list" where
  "effects_between w w' = drop (length (trace w)) (trace w')"

text \<open>
  The basic lookup in the words of the specification, read off the response body without
  the accessors of the source. A field of a value that is not an object, and a field an
  object does not have, are \<^verbatim>\<open>undefined\<close>. A field is present when its value is none of
  \<^verbatim>\<open>undefined\<close>, \<^verbatim>\<open>null\<close>, \<^verbatim>\<open>false\<close>, the empty string and zero. The sprite is the official
  artwork if present, else the default front sprite if present, else \<^verbatim>\<open>null\<close>.
\<close>

fun member_of :: "js \<Rightarrow> string \<Rightarrow> js" where
  "member_of (VObj fs) k = (case map_of fs k of None \<Rightarrow> VUndefined | Some v \<Rightarrow> v)"
| "member_of v k = VUndefined"

definition at_path :: "js \<Rightarrow> string list \<Rightarrow> js" where
  "at_path v ks = foldl member_of v ks"

definition present :: "js \<Rightarrow> bool" where
  "present v \<longleftrightarrow>
     v \<noteq> VUndefined \<and> v \<noteq> VNull \<and> v \<noteq> VBool False \<and> v \<noteq> VStr [] \<and> v \<noteq> VInt 0
     \<and> v \<noteq> VNum MinusZero"

definition sprite_policy :: "js \<Rightarrow> js \<Rightarrow> js" where
  "sprite_policy artwork front =
     (if present artwork then artwork else if present front then front else VNull)"

definition type_names :: "js \<Rightarrow> js" where
  "type_names d =
     (case member_of d ''types'' of
        VArr ts \<Rightarrow> VArr (map (\<lambda>t. at_path t [''type'', ''name'']) ts)
      | v \<Rightarrow> VArr [])"

definition basic_lookup :: "js \<Rightarrow> js" where
  "basic_lookup d =
     VObj [(''id'', member_of d ''id''), (''name'', member_of d ''name''),
           (''sprite'', sprite_policy
              (at_path d [''sprites'', ''other'', ''official-artwork'', ''front_default''])
              (at_path d [''sprites'', ''front_default''])),
           (''types'', type_names d)]"

text \<open>
  The bodies the lookup can be read from: every body but \<^verbatim>\<open>null\<close>, unless its \<^verbatim>\<open>types\<close> is
  something other than an array (and not \<^verbatim>\<open>null\<close> or missing) or an array that holds a
  \<^verbatim>\<open>null\<close>. On the others reading throws.
\<close>

definition basic_readable :: "js \<Rightarrow> bool" where
  "basic_readable d \<longleftrightarrow>
     d \<noteq> VUndefined \<and> d \<noteq> VNull
     \<and> (case member_of d ''types'' of
           VUndefined \<Rightarrow> True
         | VNull \<Rightarrow> True
         | VArr ts \<Rightarrow> VNull \<notin> set ts \<and> VUndefined \<notin> set ts
         | v \<Rightarrow> False)"

text \<open>The CaptureRecord of the specification's data model, as it is persisted.\<close>

definition CaptureRecord :: "int \<Rightarrow> string \<Rightarrow> string option \<Rightarrow> string \<Rightarrow> int \<Rightarrow> json" where
  "CaptureRecord ident name sprite photoUri timestamp =
     JObj [(''id'', JNum ident), (''name'', JStr name),
           (''sprite'', (case sprite of None \<Rightarrow> JNull | Some s \<Rightarrow> JStr s)),
           (''photoUri'', JStr photoUri), (''timestamp'', JNum timestamp)]"

text \<open>
  The persisted capture list: what is stored under \<^verbatim>\<open>captures\<close> when that is a JSON array,
  the empty list when nothing (or the empty string) is stored there.
\<close>

fun persisted_captures :: "stored option \<Rightarrow> json list option" where
  "persisted_captures None = Some []"
| "persisted_captures (Some Empty_text) = Some []"
| "persisted_captures (Some (Json_text (JArr xs))) = Some xs"
| "persisted_captures (Some t) = None"

text \<open>A capture that ended with the success notice.\<close>

definition captured :: "world \<Rightarrow> bool" where
  "captured w =
     (case rev (trace w) of
        [] \<Rightarrow> False
      | e # es \<Rightarrow> e = Alert ''Captured!'' ''Pokemon saved to your gallery.'')"

section \<open>Example worlds\<close>

definition routes :: "(string \<times> response) list \<Rightarrow> string \<Rightarrow> response" where
  "routes table url = (case map_of table url of None \<Rightarrow> Rejected | Some r \<Rightarrow> r)"

text \<open>
  An environment whose store never fails and whose network answers by a fixed table. The
  requests of a batch complete in rotation, counted from the index request.
\<close>

definition rotation :: "event list \<Rightarrow> nat \<Rightarrow> nat" where
  "rotation h n = length (takeWhile (\<lambda>e. e \<noteq> Fetch list_url) (rev h))"

definition steady_env :: "(string \<times> response) list \<Rightarrow> env" where
  "steady_env table =
     \<lparr>net = (\<lambda>h. routes table), read_fails = (\<lambda>h k. False),
      write_fails = (\<lambda>h k j. False), schedule = rotation,
      platform_os = ''android'', take_photo = (\<lambda>h. Some ''/data/photo.jpg''),
      date_now = (\<lambda>h. 1700000000000 + int (length h))\<rparr>"

text \<open>The same environment with a store that refuses every write, or fails every read.\<close>

definition refusing_store :: "env \<Rightarrow> env" where
  "refusing_store env = env\<lparr>write_fails := (\<lambda>h k j. True)\<rparr>"

definition unreadable_store :: "env \<Rightarrow> env" where
  "unreadable_store env = env\<lparr>read_fails := (\<lambda>h k. True)\<rparr>"

definition empty_world :: world where
  "empty_world = \<lparr>storage = (\<lambda>k. None), trace = []\<rparr>"

text \<open>
  The pikachu record of the scenario, for a given \<^verbatim>\<open>types\<close> array, \<^verbatim>\<open>abilities\<close> array and
  \<^verbatim>\<open>weight\<close>, and the entry built from it.
\<close>

definition record_with :: "js \<Rightarrow> js \<Rightarrow> js \<Rightarrow> js" where
  "record_with ts as weight =
     VObj [(''id'', VInt 25), (''name'', VStr ''pikachu''),
           (''types'', ts), (''abilities'', as), (''stats'', VArr []),
           (''sprites'', VObj [(''front_default'', VStr ''url1'')]),
           (''species'', VObj [(''url'', VStr ''url2'')]),
           (''weight'', weight), (''height'', VInt 4)]"

definition entry_with :: "js \<Rightarrow> js \<Rightarrow> js" where
  "entry_with ts weight =
     VObj [(''id'', VInt 25), (''name'', VStr ''pikachu''), (''types'', ts),
           (''abilities'', VArr []), (''stats'', VArr []), (''spriteUrl'', VStr ''url1''),
           (''speciesData'', VObj [(''flavor_text_entries'', VArr [])]),
           (''weight'', weight), (''height'', VInt 4)]"

definition electric :: js where
  "electric = VArr [VObj [(''type'', VObj [(''name'', VStr ''electric'')])]]"

definition pikachu_record :: js where
  "pikachu_record = record_with electric (VArr []) (VInt 60)"

definition pikachu_species :: js where
  "pikachu_species = VObj [(''flavor_text_entries'', VArr [])]"

definition pikachu_entry :: js where
  "pikachu_entry = entry_with (VArr [VStr ''electric'']) (VInt 60)"

definition entry_json_with_types :: "json \<Rightarrow> json" where
  "entry_json_with_types ts =
     JObj [(''id'', JNum 25), (''name'', JStr ''pikachu''), (''types'', ts),
           (''abilities'', JArr []), (''stats'', JArr []), (''spriteUrl'', JStr ''url1''),
           (''speciesData'', JObj [(''flavor_text_entries'', JArr [])]),
           (''weight'', JNum 60), (''height'', JNum 4)]"

text \<open>The same record with a type entry that carries no name: \<^verbatim>\<open>types: [{type: {}}]\<close>.\<close>

definition nameless_type_record :: js where
  "nameless_type_record = record_with (VArr [VObj [(''type'', VObj [])]]) (VArr []) (VInt 60)"

text \<open>The same record with a weight beyond the range of a double: \<^verbatim>\<open>weight: 1e400\<close>.\<close>

definition heavy_record :: js where
  "heavy_record = record_with electric (VArr []) (VNum (Infinite True))"

text \<open>The same record with a \<^verbatim>\<open>types\<close> entry that has no \<^verbatim>\<open>type\<close>: \<^verbatim>\<open>types: [{slot: 1}]\<close>.\<close>

definition untyped_record :: js where
  "untyped_record = record_with (VArr [VObj [(''slot'', VInt 1)]]) (VArr []) (VInt 60)"

text \<open>The same record with an \<^verbatim>\<open>abilities\<close> entry that has no \<^verbatim>\<open>ability\<close>.\<close>

definition unskilled_record :: js where
  "unskilled_record = record_with electric (VArr [VObj [(''slot'', VInt 1)]]) (VInt 60)"

text \<open>A record with both an official artwork and a default front sprite.\<close>

definition artwork_record :: js where
  "artwork_record =
     VObj [(''id'', VInt 25), (''name'', VStr ''pikachu''), (''types'', electric),
           (''sprites'', VObj [(''front_default'', VStr ''url1''),
              (''other'', VObj [(''official-artwork'',
                 VObj [(''front_default'', VStr ''art1'')])])])]"

text \<open>A record without sprites, and the body of an error answer.\<close>

definition bare_record :: js where
  "bare_record = VObj [(''id'', VInt 25), (''name'', VStr ''pikachu'')]"

definition not_found_body :: js where
  "not_found_body = VObj [(''detail'', VStr ''Not found'')]"

definition pikachu_url :: string where
  "pikachu_url = ''https://pokeapi.co/api/v2/pokemon/25''"

definition pikachu_name_url :: string where
  "pikachu_name_url = ''https://pokeapi.co/api/v2/pokemon/pikachu''"

text \<open>An index that lists pikachu, and one that lists it twice.\<close>

definition index_of_pikachu :: js where
  "index_of_pikachu =
     VObj [(''results'', VArr [VObj [(''name'', VStr ''pikachu''), (''url'', VStr pikachu_url)]])]"

definition index_of_twins :: js where
  "index_of_twins =
     VObj [(''results'', VArr [VObj [(''name'', VStr ''pikachu'')],
                              VObj [(''name'', VStr ''pikachu'')]])]"

text \<open>An API that serves the record \<open>d\<close> as pikachu, by id and by name.\<close>

definition api_serving :: "js \<Rightarrow> (string \<times> response) list" where
  "api_serving d =
     [(pikachu_url, Response True (Some d)),
      (pikachu_name_url, Response True (Some d)),
      (''url2'', Response True (Some pikachu_species)),
      (list_url, Response True (Some index_of_pikachu))]"

definition pikachu_api :: "(string \<times> response) list" where
  "pikachu_api = api_serving pikachu_record"

definition nameless_api :: "(string \<times> response) list" where
  "nameless_api = api_serving nameless_type_record"

definition heavy_api :: "(string \<times> response) list" where
  "heavy_api = api_serving heavy_record"

definition twins_api :: "(string \<times> response) list" where
  "twins_api =
     [(pikachu_name_url, Response True (Some pikachu_record)),
      (''url2'', Response True (Some pikachu_species)),
      (list_url, Response True (Some index_of_twins))]"

text \<open>An API that serves the pikachu record and rejects every other request.\<close>

definition pikachu_api_without_species :: "(string \<times> response) list" where
  "pikachu_api_without_species = [(pikachu_url, Response True (Some pikachu_record))]"

text \<open>An API whose species endpoint answers with an error status and a JSON body.\<close>

definition pikachu_api_species_not_found :: "(string \<times> response) list" where
  "pikachu_api_species_not_found =
     [(pikachu_url, Response True (Some pikachu_record)),
      (''url2'', Response False (Some not_found_body))]"

definition first_screen :: screen where
  "first_screen = \<lparr>camera_current = True, selectedPokemonId = 25, selectedPokemonSprite = None\<rparr>"

definition second_screen :: screen where
  "second_screen =
     \<lparr>camera_current = True, selectedPokemonId = 7, selectedPokemonSprite = Some ''url7''\<rparr>"

section \<open>Lemmas\<close>

declare decimal.simps [simp del]

subsection \<open>JSON round trips\<close>

lemma map_filter_object_slot_Some:
  "(\<And>p. p \<in> set fs \<Longrightarrow> f (snd p) = Some (g (snd p))) \<Longrightarrow>
   List.map_filter object_slot (map (map_prod id f) fs) = map (map_prod id g) fs"
  by (induction fs) (auto simp: List.map_filter_simps object_slot_def split: option.splits)

lemma stringify_parse: "JSON_stringify (JSON_parse_value j) = Some j"
proof (induction j)
  case (JArr xs)
  then have "map array_slot (map JSON_stringify (map JSON_parse_value xs)) = xs"
    by (induction xs) (auto simp: array_slot_def)
  then show ?case by simp
next
  case (JObj fs)
  have "\<And>p. p \<in> set fs \<Longrightarrow> JSON_stringify (JSON_parse_value (snd p)) = Some (snd p)"
    using JObj by (auto simp: snds.simps)
  then have "List.map_filter object_slot
       (map (map_prod id (\<lambda>j. JSON_stringify (JSON_parse_value j))) fs)
     = map (map_prod id (\<lambda>j. j)) fs"
    by (rule map_filter_object_slot_Some)
  then show ?case by (simp add: comp_def prod.map_comp prod.map_id0 id_def[symmetric])
qed (simp_all add: number_slot_def)

lemma survives_json_stringify: "survives_json v \<Longrightarrow> \<exists>j. JSON_stringify v = Some j"
  by (cases v) simp_all

lemma parse_survives_json: "survives_json (JSON_parse_value j)"
proof (induction j)
  case (JObj fs)
  then show ?case by (auto simp: list_all_iff snds.simps)
qed (auto simp: list_all_iff)

lemma roundtrip_id: "survives_json v \<Longrightarrow> JSON_roundtrip v = v"
proof (induction v)
  case (VNum x)
  then show ?case by (cases x) (simp_all add: JSON_roundtrip_def number_slot_def)
next
  case (VArr xs)
  have "\<And>x. x \<in> set xs \<Longrightarrow> JSON_parse_value (array_slot (JSON_stringify x)) = x"
  proof -
    fix x assume x: "x \<in> set xs"
    with VArr.prems have nu: "survives_json x" by (auto simp: list_all_iff)
    then obtain j where j: "JSON_stringify x = Some j" using survives_json_stringify by blast
    from VArr.IH [OF x nu] j show "JSON_parse_value (array_slot (JSON_stringify x)) = x"
      by (simp add: JSON_roundtrip_def array_slot_def)
  qed
  then have "map JSON_parse_value (map array_slot (map JSON_stringify xs)) = xs"
    by (simp add: map_idI)
  then show ?case by (simp add: JSON_roundtrip_def)
next
  case (VObj fs)
  have step: "\<And>p. p \<in> set fs \<Longrightarrow>
      JSON_stringify (snd p) = Some (the (JSON_stringify (snd p)))
      \<and> JSON_parse_value (the (JSON_stringify (snd p))) = snd p"
  proof -
    fix p assume p: "p \<in> set fs"
    with VObj.prems have nu: "survives_json (snd p)" by (auto simp: list_all_iff)
    then obtain j where j: "JSON_stringify (snd p) = Some j" using survives_json_stringify by blast
    have "snd p \<in> Basic_BNFs.snds p" by (simp add: snds.simps)
    from VObj.IH [OF p this nu] j
    show "JSON_stringify (snd p) = Some (the (JSON_stringify (snd p)))
      \<and> JSON_parse_value (the (JSON_stringify (snd p))) = snd p"
      by (simp add: JSON_roundtrip_def)
  qed
  then have "List.map_filter object_slot (map (map_prod id JSON_stringify) fs)
     = map (map_prod id (\<lambda>v. the (JSON_stringify v))) fs"
    by (intro map_filter_object_slot_Some) simp
  moreover have "map (map_prod id JSON_parse_value)
     (map (map_prod id (\<lambda>v. the (JSON_stringify v))) fs) = fs"
    using step by (auto intro!: map_idI simp: map_prod_def split: prod.splits)
  ultimately show ?case by (simp add: JSON_roundtrip_def)
qed (simp_all add: JSON_roundtrip_def)

lemma roundtrip_survives: "JSON_stringify v = Some j \<Longrightarrow> survives_json (JSON_roundtrip v)"
  by (simp add: JSON_roundtrip_def parse_survives_json)

text \<open>A value that was written comes back from the store unchanged exactly when it survives JSON.\<close>

lemma roundtrip_iff:
  "JSON_stringify v = Some j \<Longrightarrow> JSON_roundtrip v = v \<longleftrightarrow> survives_json v"
  using roundtrip_id [of v] roundtrip_survives [of v j] by auto

lemma stringify_array_parsed:
  "JSON_stringify (VArr (map JSON_parse_value xs @ [v])) = Some (JArr (xs @ [array_slot (JSON_stringify v)]))"
proof -
  have "map array_slot (map JSON_stringify (map JSON_parse_value xs)) = xs"
    by (induction xs) (auto simp: array_slot_def stringify_parse)
  then show ?thesis by simp
qed

subsection \<open>The store, the network and the trace\<close>

lemma getItem_world [simp]:
  "snd (getItem env key w) = w\<lparr>trace := trace w @ [GetItem key]\<rparr>"
  by (simp add: getItem_def)

lemma getItem_value [simp]:
  "fst (getItem env key w) =
     (if read_fails env (trace w) key then Inl StorageError else Inr (storage w key))"
  by (simp add: getItem_def)

lemma fetch_world [simp]: "snd (fetch env url w) = w\<lparr>trace := trace w @ [Fetch url]\<rparr>"
  by (simp add: fetch_def)

lemma fetch_value [simp]: "fst (fetch env url w) = net env (trace w) url"
  by (simp add: fetch_def)

lemma cached_value_absent [simp]:
  "cached_value (Inl e) = None" "cached_value (Inr None) = None"
  by (simp_all add: cached_value_def)

lemma cached_value_json [simp]:
  "cached_value (Inr (Some (Json_text j))) = Some (JSON_parse_value j)"
  by (simp add: cached_value_def)

lemma setItem_Inr:
  "setItem env key val w = (Inr u, w') \<Longrightarrow>
     \<exists>j. val = Some j \<and> \<not> write_fails env (trace w) key j
       \<and> w' = w\<lparr>storage := (storage w)(key \<mapsto> Json_text j), trace := trace w @ [SetItem key j]\<rparr>"
  by (auto simp: setItem_def split: option.splits if_splits)

lemma setItem_Inl:
  "setItem env key val w = (Inl e, w') \<Longrightarrow>
     w' = w\<lparr>trace := trace w @ [SetItemFailed key]\<rparr>"
  by (auto simp: setItem_def split: option.splits if_splits)

lemma detail_key_not_list_key: "detail_cache_key k \<noteq> POKEMON_LIST_CACHE_KEY"
  by (simp add: detail_cache_key_def POKEMON_LIST_CACHE_KEY_def POKEMON_DETAIL_CACHE_PREFIX_def)

subsection \<open>Exceptions\<close>

lemma then_err_Inr_iff: "then_err r f = Inr y \<longleftrightarrow> (\<exists>x. r = Inr x \<and> f x = Inr y)"
  by (cases r) (simp_all add: then_err_def)

lemma isl_then_err: "isl (then_err r f) \<longleftrightarrow> isl r \<or> isl (f (projr r))"
  by (cases r) (simp_all add: then_err_def)

lemma isl_traverse: "isl (traverse f xs) \<longleftrightarrow> (\<exists>x \<in> set xs. isl (f x))"
  by (induction xs) (auto split: sum.splits)

lemma isl_get_prop: "isl (get_prop v k) \<longleftrightarrow> nullish v"
  by (cases v) (simp_all add: nullish_def split: option.splits)

lemma isl_member_name:
  "isl (then_err (get_prop x k) (\<lambda>y. get_prop y n)) \<longleftrightarrow> \<not> has_member k x"
  by (cases "get_prop x k") (simp_all add: then_err_def has_member_def isl_get_prop)

lemma isl_call_map:
  "isl (call_map v f) \<longleftrightarrow>
     (case array_items v of Inl e \<Rightarrow> True | Inr xs \<Rightarrow> \<exists>x \<in> set xs. isl (f x))"
  by (cases "array_items v") (simp_all add: call_map_def isl_then_err isl_traverse)

lemma isl_call_map_names:
  "isl (call_map v (\<lambda>x. then_err (get_prop x k) (\<lambda>y. get_prop y n))) \<longleftrightarrow>
     \<not> array_with_member k v"
  unfolding isl_call_map isl_member_name
  by (cases "array_items v") (simp_all add: array_with_member_def list_all_iff)

lemma isl_names_of:
  "\<not> nullish d \<Longrightarrow>
   isl (then_err (get_prop d k) (\<lambda>ts.
          call_map ts (\<lambda>t. then_err (get_prop t m) (\<lambda>ty. get_prop ty n)))) \<longleftrightarrow>
   \<not> (case get_prop d k of Inl e \<Rightarrow> False | Inr ts \<Rightarrow> array_with_member m ts)"
proof (cases "get_prop d k")
  case (Inl e)
  moreover assume "\<not> nullish d"
  ultimately show ?thesis using isl_get_prop [of d k] by simp
next
  case (Inr ts)
  then show ?thesis by (simp add: isl_then_err isl_call_map_names)
qed

lemma isl_assemble_detail: "isl (assemble_detail d s) \<longleftrightarrow> \<not> well_formed_record d"
proof (cases "nullish d")
  case True
  then have "isl (get_prop d ''id'')" by (simp add: isl_get_prop)
  then have "isl (assemble_detail d s)" by (simp add: assemble_detail_def isl_then_err)
  moreover from True have "\<not> has_member ''sprites'' d"
    by (cases "get_prop d ''sprites''") (auto simp: has_member_def nullish_def)
  ultimately show ?thesis by (simp add: well_formed_record_def)
next
  case False
  define T where "T = then_err (get_prop d ''types'') (\<lambda>ts.
        call_map ts (\<lambda>t. then_err (get_prop t ''type'') (\<lambda>ty. get_prop ty ''name'')))"
  define A where "A = then_err (get_prop d ''abilities'') (\<lambda>as.
        call_map as (\<lambda>a. then_err (get_prop a ''ability'') (\<lambda>ab. get_prop ab ''name'')))"
  define S where "S = then_err (get_prop d ''sprites'') (\<lambda>sp. get_prop sp ''front_default'')"
  from False have ok: "\<And>k. \<not> isl (get_prop d k)" by (simp add: isl_get_prop)
  have T: "isl T \<longleftrightarrow>
      \<not> (case get_prop d ''types'' of Inl e \<Rightarrow> False | Inr ts \<Rightarrow> array_with_member ''type'' ts)"
    unfolding T_def using False by (rule isl_names_of)
  have A: "isl A \<longleftrightarrow>
      \<not> (case get_prop d ''abilities'' of Inl e \<Rightarrow> False | Inr as \<Rightarrow> array_with_member ''ability'' as)"
    unfolding A_def using False by (rule isl_names_of)
  have S: "isl S \<longleftrightarrow> \<not> has_member ''sprites'' d"
    unfolding S_def by (rule isl_member_name)
  have "isl (assemble_detail d s) \<longleftrightarrow> isl T \<or> isl A \<or> isl S"
    unfolding assemble_detail_def T_def [symmetric] A_def [symmetric] S_def [symmetric]
    by (simp add: isl_then_err ok)
  then show ?thesis by (simp add: T A S well_formed_record_def)
qed

lemma assemble_detail_shape:
  assumes "assemble_detail d s = Inr x"
  shows "\<exists>a b c e f g h i. x = VObj [(''id'', a), (''name'', b), (''types'', c),
     (''abilities'', e), (''stats'', f), (''spriteUrl'', g), (''speciesData'', s),
     (''weight'', h), (''height'', i)]"
  using assms unfolding assemble_detail_def then_err_Inr_iff by blast

lemma assemble_detail_species:
  "assemble_detail d s = Inr x \<Longrightarrow> get_prop x ''speciesData'' = Inr s"
  by (drule assemble_detail_shape) auto

lemma assemble_detail_not_null: "assemble_detail d s = Inr x \<Longrightarrow> x \<noteq> VNull"
  by (drule assemble_detail_shape) auto

subsection \<open>The species request\<close>

lemma fetch_species_storage [simp]: "storage (snd (fetch_species env d w)) = storage w"
  by (auto simp: fetch_species_def fetch_def split: sum.splits response.splits option.splits prod.splits)

lemma fetch_species_trace:
  "trace (snd (fetch_species env d w)) = trace w \<or>
   (\<exists>u. trace (snd (fetch_species env d w)) = trace w @ [Fetch u])"
  by (auto simp: fetch_species_def fetch_def split: sum.splits response.splits option.splits prod.splits)

lemma fetch_species_throws:
  "species_fetch_throws env (trace w) d \<Longrightarrow> fst (fetch_species env d w) = VObj []"
  by (auto simp: fetch_species_def species_fetch_throws_def fetch_def
      split: sum.splits response.splits option.splits prod.splits)

subsection \<open>fetchPokemonDetail\<close>

lemma detail_from_network_failed:
  "fetch_fails (net env (trace w) (detail_url k)) \<Longrightarrow>
     \<exists>e. detail_from_network env k key w = (Inl e, w\<lparr>trace := trace w @ [Fetch (detail_url k)]\<rparr>)"
  by (auto simp: detail_from_network_def fetch_def fetch_fails_def split: response.splits)

lemma detail_from_network_body:
  "net env (trace w) (detail_url k) = Response True (Some j) \<Longrightarrow>
   detail_from_network env k key w =
     (case assemble_detail j
             (fst (fetch_species env j (w\<lparr>trace := trace w @ [Fetch (detail_url k)]\<rparr>))) of
        Inl e \<Rightarrow> (Inl e, snd (fetch_species env j (w\<lparr>trace := trace w @ [Fetch (detail_url k)]\<rparr>)))
      | Inr d \<Rightarrow>
          (case setItem env key (JSON_stringify d)
                  (snd (fetch_species env j (w\<lparr>trace := trace w @ [Fetch (detail_url k)]\<rparr>))) of
             (Inl e, w3) \<Rightarrow> (Inl e, w3)
           | (Inr u, w3) \<Rightarrow> (Inr d, w3)))"
  by (simp add: detail_from_network_def fetch_def case_prod_beta)

lemma fetch_species_after_fetch:
  "trace (snd (fetch_species env d (w\<lparr>trace := trace w @ [Fetch u]\<rparr>))) \<noteq> [] \<and>
   (\<exists>v. last (trace (snd (fetch_species env d (w\<lparr>trace := trace w @ [Fetch u]\<rparr>)))) = Fetch v)"
  using fetch_species_trace [of env d "w\<lparr>trace := trace w @ [Fetch u]\<rparr>"] by auto

lemma response_cases:
  obtains "fetch_fails r" | j where "r = Response True (Some j)"
proof (cases r)
  case Rejected
  then show ?thesis using that by (simp add: fetch_fails_def)
next
  case (Response ok body)
  then show ?thesis using that by (cases ok; cases body) (simp_all add: fetch_fails_def)
qed

lemma detail_from_network_Inr:
  assumes "detail_from_network env k key w = (Inr d, w')"
  shows "\<exists>j. JSON_stringify d = Some j \<and> d \<noteq> VNull
           \<and> storage w' = (storage w)(key \<mapsto> Json_text j)
           \<and> trace w' \<noteq> [] \<and> last (trace w') = SetItem key j"
proof (cases "net env (trace w) (detail_url k)" rule: response_cases)
  case 1
  with assms show ?thesis using detail_from_network_failed [of env w k key] by auto
next
  case (2 body)
  define sp where "sp = fetch_species env body (w\<lparr>trace := trace w @ [Fetch (detail_url k)]\<rparr>)"
  have st: "storage (snd sp) = storage w" by (simp add: sp_def)
  from assms 2 obtain u where a: "assemble_detail body (fst sp) = Inr d"
    and s: "setItem env key (JSON_stringify d) (snd sp) = (Inr u, w')"
    by (auto simp: detail_from_network_body sp_def split: sum.splits prod.splits)
  from setItem_Inr [OF s] obtain j where j: "JSON_stringify d = Some j"
    and w': "w' = (snd sp)\<lparr>storage := (storage (snd sp))(key \<mapsto> Json_text j),
                            trace := trace (snd sp) @ [SetItem key j]\<rparr>"
    by blast
  from j w' st assemble_detail_not_null [OF a] show ?thesis by simp
qed

lemma detail_from_network_Inl:
  assumes "detail_from_network env k key w = (Inl e, w')"
  shows "storage w' = storage w \<and> trace w' \<noteq> []
           \<and> ((\<exists>u. last (trace w') = Fetch u) \<or> last (trace w') = SetItemFailed key)"
proof (cases "net env (trace w) (detail_url k)" rule: response_cases)
  case 1
  with assms show ?thesis using detail_from_network_failed [of env w k key] by auto
next
  case (2 body)
  define sp where "sp = fetch_species env body (w\<lparr>trace := trace w @ [Fetch (detail_url k)]\<rparr>)"
  have st: "storage (snd sp) = storage w" by (simp add: sp_def)
  have tr: "trace (snd sp) \<noteq> [] \<and> (\<exists>v. last (trace (snd sp)) = Fetch v)"
    unfolding sp_def by (rule fetch_species_after_fetch)
  show ?thesis
  proof (cases "assemble_detail body (fst sp)")
    case (Inl x)
    with assms 2 have "w' = snd sp" by (simp add: detail_from_network_body sp_def)
    with st tr show ?thesis by simp
  next
    case (Inr x)
    with assms 2 have "setItem env key (JSON_stringify x) (snd sp) = (Inl e, w')"
      by (auto simp: detail_from_network_body sp_def split: sum.splits prod.splits)
    from setItem_Inl [OF this] st show ?thesis by simp
  qed
qed

lemma detail_from_network_isl:
  "isl (fst (detail_from_network env k key w)) \<longleftrightarrow>
     fetch_fails (net env (trace w) (detail_url k))
     \<or> (\<exists>j. net env (trace w) (detail_url k) = Response True (Some j)
            \<and> \<not> well_formed_record j)
     \<or> last (trace (snd (detail_from_network env k key w))) = SetItemFailed key"
proof (cases "net env (trace w) (detail_url k)" rule: response_cases)
  case 1
  then show ?thesis using detail_from_network_failed [of env w k key] by auto
next
  case (2 body)
  then have nf: "\<not> fetch_fails (net env (trace w) (detail_url k))" by (simp add: fetch_fails_def)
  obtain r w' where r: "detail_from_network env k key w = (r, w')" by (cases "detail_from_network env k key w")
  define sp where "sp = fetch_species env body (w\<lparr>trace := trace w @ [Fetch (detail_url k)]\<rparr>)"
  have tr: "trace (snd sp) \<noteq> [] \<and> (\<exists>v. last (trace (snd sp)) = Fetch v)"
    unfolding sp_def by (rule fetch_species_after_fetch)
  show ?thesis
  proof (cases "assemble_detail body (fst sp)")
    case (Inl x)
    then have "\<not> well_formed_record body"
      using isl_assemble_detail [of body "fst sp"] by simp
    moreover from Inl 2 have "isl (fst (detail_from_network env k key w))"
      by (simp add: detail_from_network_body sp_def)
    ultimately show ?thesis using 2 by simp
  next
    case (Inr x)
    then have wf: "well_formed_record body"
      using isl_assemble_detail [of body "fst sp"] by auto
    show ?thesis
    proof (cases r)
      case (Inl e)
      with r Inr 2 have "setItem env key (JSON_stringify x) (snd sp) = (Inl e, w')"
        by (auto simp: detail_from_network_body sp_def split: sum.splits prod.splits)
      from setItem_Inl [OF this] have "last (trace w') = SetItemFailed key" by simp
      with r Inl show ?thesis by simp
    next
      case (Inr d)
      with r detail_from_network_Inr [of env k key w d w']
      have "\<exists>j. last (trace w') = SetItem key j" by auto
      with r Inr nf wf 2 show ?thesis by auto
    qed
  qed
qed

lemma fetchPokemonDetail_miss:
  "cached_value (fst (getItem env (detail_cache_key k) w)) = None \<Longrightarrow>
   fetchPokemonDetail env k w =
     (case detail_from_network env k (detail_cache_key k)
             (w\<lparr>trace := trace w @ [GetItem (detail_cache_key k)]\<rparr>) of
        (Inl e, w2) \<Rightarrow> (VNull, w2)
      | (Inr d, w2) \<Rightarrow> (d, w2))"
  by (simp add: fetchPokemonDetail_def getItem_def case_prod_beta)

lemma fetchPokemonDetail_hit:
  "cached_value (fst (getItem env (detail_cache_key k) w)) = Some v \<Longrightarrow>
   fetchPokemonDetail env k w = (v, w\<lparr>trace := trace w @ [GetItem (detail_cache_key k)]\<rparr>)"
  by (simp add: fetchPokemonDetail_def getItem_def case_prod_beta)

lemma key_25: "detail_cache_key (VInt 25) = ''pokemon_detail_25''"
  by (simp add: detail_cache_key_def POKEMON_DETAIL_CACHE_PREFIX_def number_string_def
      number_text_def decimal.simps digit_def)

lemma url_25: "detail_url (VInt 25) = pikachu_url"
  by (simp add: detail_url_def POKEAPI_BASE_URL_def number_string_def number_text_def
      decimal.simps digit_def pikachu_url_def)

lemma species_of_pikachu:
  "net env (trace w @ [Fetch u]) ''url2'' = Response ok (Some s) \<Longrightarrow>
   fetch_species env pikachu_record (w\<lparr>trace := trace w @ [Fetch u]\<rparr>)
     = (s, w\<lparr>trace := trace w @ [Fetch u, Fetch ''url2'']\<rparr>)"
  by (simp add: fetch_species_def pikachu_record_def record_with_def then_err_def fetch_def)

lemma assemble_pikachu:
  "assemble_detail pikachu_record s =
     Inr (VObj [(''id'', VInt 25), (''name'', VStr ''pikachu''), (''types'', VArr [VStr ''electric'']),
           (''abilities'', VArr []), (''stats'', VArr []), (''spriteUrl'', VStr ''url1''),
           (''speciesData'', s), (''weight'', VInt 60), (''height'', VInt 4)])"
  by (simp add: assemble_detail_def pikachu_record_def record_with_def electric_def
      then_err_def call_map_def)

lemma fetchPokemonDetail_null_isl:
  assumes "cached_value (fst (getItem env (detail_cache_key k) w)) = None"
  shows "fst (fetchPokemonDetail env k w) = VNull \<longleftrightarrow>
           isl (fst (detail_from_network env k (detail_cache_key k)
                  (w\<lparr>trace := trace w @ [GetItem (detail_cache_key k)]\<rparr>)))"
    and "snd (fetchPokemonDetail env k w) =
           snd (detail_from_network env k (detail_cache_key k)
                  (w\<lparr>trace := trace w @ [GetItem (detail_cache_key k)]\<rparr>))"
proof -
  obtain r w' where r: "detail_from_network env k (detail_cache_key k)
      (w\<lparr>trace := trace w @ [GetItem (detail_cache_key k)]\<rparr>) = (r, w')"
    by (cases "detail_from_network env k (detail_cache_key k)
      (w\<lparr>trace := trace w @ [GetItem (detail_cache_key k)]\<rparr>)")
  show "fst (fetchPokemonDetail env k w) = VNull \<longleftrightarrow>
           isl (fst (detail_from_network env k (detail_cache_key k)
                  (w\<lparr>trace := trace w @ [GetItem (detail_cache_key k)]\<rparr>)))"
  proof (cases r)
    case (Inl e)
    with r show ?thesis by (simp add: fetchPokemonDetail_miss [OF assms])
  next
    case (Inr d)
    with r detail_from_network_Inr [of env k "detail_cache_key k" _ d w'] have "d \<noteq> VNull" by auto
    with r Inr show ?thesis by (simp add: fetchPokemonDetail_miss [OF assms])
  qed
  show "snd (fetchPokemonDetail env k w) =
           snd (detail_from_network env k (detail_cache_key k)
                  (w\<lparr>trace := trace w @ [GetItem (detail_cache_key k)]\<rparr>))"
    using r by (cases r) (simp_all add: fetchPokemonDetail_miss [OF assms])
qed

subsection \<open>fetchPokemonList\<close>

lemma no_list_write_snoc [simp]:
  "no_list_write (t @ [e]) \<longleftrightarrow> (\<forall>j. e \<noteq> SetItem POKEMON_LIST_CACHE_KEY j)"
  by (cases e) (auto simp: no_list_write_def)

lemma no_list_write_last:
  "t \<noteq> [] \<Longrightarrow> no_list_write t \<longleftrightarrow> (\<forall>j. last t \<noteq> SetItem POKEMON_LIST_CACHE_KEY j)"
  by (cases t rule: rev_cases) simp_all

lemma fetchPokemonDetail_no_list_write:
  "no_list_write (trace (snd (fetchPokemonDetail env k w)))"
proof (cases "cached_value (fst (getItem env (detail_cache_key k) w))")
  case (Some v)
  then show ?thesis by (simp add: fetchPokemonDetail_hit [OF Some])
next
  case None
  let ?w1 = "w\<lparr>trace := trace w @ [GetItem (detail_cache_key k)]\<rparr>"
  obtain r w' where r: "detail_from_network env k (detail_cache_key k) ?w1 = (r, w')"
    by (cases "detail_from_network env k (detail_cache_key k) ?w1")
  show ?thesis
  proof (cases r)
    case (Inl e)
    with r detail_from_network_Inl [of env k "detail_cache_key k" ?w1 e w']
    show ?thesis
      by (auto simp: fetchPokemonDetail_null_isl(2) [OF None] no_list_write_last)
  next
    case (Inr d)
    with r detail_from_network_Inr [of env k "detail_cache_key k" ?w1 d w']
    show ?thesis
      using detail_key_not_list_key [of k]
      by (auto simp: fetchPokemonDetail_null_isl(2) [OF None] no_list_write_last)
  qed
qed

text \<open>A call in flight, run alone, is \<^verbatim>\<open>fetchPokemonDetail\<close>: at most four requests.\<close>

lemma task_alone:
  "steps 4 env (Await_getItem k) w =
     (Settled (Inr (fst (fetchPokemonDetail env k w))), snd (fetchPokemonDetail env k w))"
proof (cases "cached_value (fst (getItem env (detail_cache_key k) w))")
  case (Some v)
  then show ?thesis
    by (simp add: eval_nat_numeral fetchPokemonDetail_hit [OF Some] case_prod_beta)
next
  case None
  let ?w1 = "w\<lparr>trace := trace w @ [GetItem (detail_cache_key k)]\<rparr>"
  have first: "step env (Await_getItem k) w = (Await_primary k, ?w1)"
    using None by (simp add: case_prod_beta prod_eq_iff)
  have rest: "steps 3 env (Await_primary k) ?w1 =
      (case detail_from_network env k (detail_cache_key k) ?w1 of
         (Inl e, w2) \<Rightarrow> (Settled (Inr VNull), w2)
       | (Inr d, w2) \<Rightarrow> (Settled (Inr d), w2))"
    by (simp add: eval_nat_numeral detail_from_network_def fetch_species_def after_primary_def
          after_species_def species_payload_def fetch_def case_prod_beta
        split: response.splits option.splits sum.splits)
  have "steps 4 env (Await_getItem k) w = steps 3 env (Await_primary k) ?w1"
    using first by (simp add: eval_nat_numeral)
  with rest show ?thesis
    by (simp add: fetchPokemonDetail_miss [OF None] case_prod_beta split: sum.splits)
qed

text \<open>A batch of one call is that call, whatever the environment schedules.\<close>

lemma step_requests_left:
  "pending t \<Longrightarrow> requests_left (fst (step env t w)) < requests_left t"
  by (cases t)
     (auto simp: after_primary_def after_species_def case_prod_beta
        split: option.splits sum.splits response.splits)

lemma run_batch_one:
  "run_batch env [t] w =
     (if pending t then run_batch env [fst (step env t w)] (snd (step env t w)) else ([t], w))"
  by (subst run_batch.simps) (simp add: next_position_def pending_positions_def)

lemma steps_settled [simp]: "steps n env (Settled r) w = (Settled r, w)"
  by (induction n) simp_all

lemma run_batch_one_steps:
  "requests_left t \<le> n \<Longrightarrow> run_batch env [t] w = ([fst (steps n env t w)], snd (steps n env t w))"
proof (induction n arbitrary: t w)
  case 0
  then have "\<not> pending t" by (cases t) simp_all
  then show ?case by (subst run_batch_one) simp
next
  case (Suc n)
  show ?case
  proof (cases "pending t")
    case True
    with Suc.prems step_requests_left [OF True, of env w]
    have "requests_left (fst (step env t w)) \<le> n" by simp
    from Suc.IH [OF this] True show ?thesis
      by (subst run_batch_one) (simp add: case_prod_beta)
  next
    case False
    then obtain r where "t = Settled r" by (cases t) simp_all
    then show ?thesis by (subst run_batch_one) simp
  qed
qed

lemma batch_of_one:
  "run_batch env [Await_getItem k] w =
     ([Settled (Inr (fst (fetchPokemonDetail env k w)))], snd (fetchPokemonDetail env k w))"
  using run_batch_one_steps [of "Await_getItem k" 4 env w] by (simp add: task_alone)

text \<open>A step of a task never writes the list cache.\<close>

lemma step_no_list_write:
  "no_list_write (trace w) \<Longrightarrow> no_list_write (trace (snd (step env t w)))"
  using detail_key_not_list_key
  by (cases t)
     (auto simp: case_prod_beta fetch_def setItem_def split: option.splits sum.splits)

lemma run_batch_no_list_write:
  "no_list_write (trace w) \<Longrightarrow> no_list_write (trace (snd (run_batch env ts w)))"
proof (induction env ts w rule: run_batch.induct)
  case (1 env ts w)
  show ?case
  proof (cases "next_position env ts w")
    case None
    with "1.prems" show ?thesis by (subst run_batch.simps) simp
  next
    case (Some i)
    have "no_list_write (trace (snd (step env (ts ! i) w)))"
      using "1.prems" by (rule step_no_list_write)
    from "1.IH" [OF Some this] Some show ?thesis by (subst run_batch.simps) simp
  qed
qed

text \<open>When the batch is over every call has settled.\<close>

lemma run_batch_settles: "t \<in> set (fst (run_batch env ts w)) \<Longrightarrow> \<not> pending t"
proof (induction env ts w rule: run_batch.induct)
  case (1 env ts w)
  show ?case
  proof (cases "next_position env ts w")
    case None
    then have none: "pending_positions ts = []"
      by (simp add: next_position_def split: list.splits)
    from "1.prems" None have "t \<in> set ts" by (subst (asm) run_batch.simps) simp
    then obtain i where "i < length ts" and "t = ts ! i" by (auto simp: in_set_conv_nth)
    with none show ?thesis by (auto simp: pending_positions_def filter_empty_conv)
  next
    case (Some i)
    from "1.prems" Some
    have "t \<in> set (fst (run_batch env (ts[i := fst (step env (ts ! i) w)])
                        (snd (step env (ts ! i) w))))"
      by (subst (asm) run_batch.simps) simp
    from "1.IH" [OF Some this] show ?thesis .
  qed
qed

text \<open>
  Two calls for the same name are both in flight before either has written the cache: both
  miss, both fetch, both write.
\<close>

lemma twins_both_fetch:
  "effects_between empty_world (snd (fetchPokemonList (steady_env twins_api) empty_world)) =
     [GetItem POKEMON_LIST_CACHE_KEY, Fetch list_url,
      GetItem ''pokemon_detail_pikachu'', GetItem ''pokemon_detail_pikachu'',
      Fetch pikachu_name_url, Fetch pikachu_name_url, Fetch ''url2'', Fetch ''url2'',
      SetItem ''pokemon_detail_pikachu'' (entry_json_with_types (JArr [JStr ''electric''])),
      SetItem ''pokemon_detail_pikachu'' (entry_json_with_types (JArr [JStr ''electric''])),
      SetItem POKEMON_LIST_CACHE_KEY
        (JArr [entry_json_with_types (JArr [JStr ''electric'']),
               entry_json_with_types (JArr [JStr ''electric''])])]"
  by code_simp

lemma twins_both_fresh:
  "fst (fetchPokemonList (steady_env twins_api) empty_world) = VArr [pikachu_entry, pikachu_entry]"
  by code_simp

lemma list_from_network_failed:
  "fetch_fails (net env (trace w) list_url) \<Longrightarrow>
     \<exists>e. list_from_network env w = (Inl e, w\<lparr>trace := trace w @ [Fetch list_url]\<rparr>)"
  by (auto simp: list_from_network_def fetch_def fetch_fails_def split: response.splits)

lemma list_from_network_body:
  "net env (trace w) list_url = Response True (Some listData) \<Longrightarrow>
   list_from_network env w =
     (case then_err (get_prop listData ''results'') array_items of
        Inl e \<Rightarrow> (Inl e, w\<lparr>trace := trace w @ [Fetch list_url]\<rparr>)
      | Inr items \<Rightarrow>
          (case Promise_all (map outcome (fst (run_batch env (map start_task items)
                   (w\<lparr>trace := trace w @ [Fetch list_url]\<rparr>)))) of
             Inl e \<Rightarrow> (Inl e, snd (run_batch env (map start_task items)
                                   (w\<lparr>trace := trace w @ [Fetch list_url]\<rparr>)))
           | Inr results \<Rightarrow>
               (case setItem env POKEMON_LIST_CACHE_KEY
                       (JSON_stringify (VArr (filter (\<lambda>p. p \<noteq> VNull) results)))
                       (snd (run_batch env (map start_task items)
                              (w\<lparr>trace := trace w @ [Fetch list_url]\<rparr>))) of
                  (Inl e, w3) \<Rightarrow> (Inl e, w3)
                | (Inr u, w3) \<Rightarrow> (Inr (VArr (filter (\<lambda>p. p \<noteq> VNull) results)), w3))))"
  by (cases "then_err (get_prop listData ''results'') array_items")
     (simp_all add: list_from_network_def fetch_def case_prod_beta)

lemma list_from_network_Inr:
  assumes "list_from_network env w = (Inr v, w')"
  shows "\<exists>j. JSON_stringify v = Some j \<and> storage w' POKEMON_LIST_CACHE_KEY = Some (Json_text j)"
proof (cases "net env (trace w) list_url" rule: response_cases)
  case 1
  with assms show ?thesis using list_from_network_failed [of env w] by auto
next
  case (2 body)
  from assms obtain u val w2 where "setItem env POKEMON_LIST_CACHE_KEY val w2 = (Inr u, w')"
    and "val = JSON_stringify v"
    unfolding list_from_network_body [OF 2]
    by (auto split: sum.splits prod.splits)
  with setItem_Inr [of env POKEMON_LIST_CACHE_KEY val w2 u w'] show ?thesis by auto
qed

lemma list_from_network_Inl:
  assumes "list_from_network env w = (Inl e, w')"
  shows "no_list_write (trace w')"
proof (cases "net env (trace w) list_url" rule: response_cases)
  case 1
  with assms show ?thesis using list_from_network_failed [of env w] by auto
next
  case (2 body)
  let ?w1 = "w\<lparr>trace := trace w @ [Fetch list_url]\<rparr>"
  have fd: "\<And>ts. no_list_write (trace (snd (run_batch env ts ?w1)))"
    by (rule run_batch_no_list_write) simp
  from assms show ?thesis
    unfolding list_from_network_body [OF 2]
    using fd
    by (auto split: sum.splits prod.splits dest!: setItem_Inl)
qed

lemma fetchPokemonList_miss:
  "cached_value (fst (getItem env POKEMON_LIST_CACHE_KEY w)) = None \<Longrightarrow>
   fetchPokemonList env w =
     (case list_from_network env (w\<lparr>trace := trace w @ [GetItem POKEMON_LIST_CACHE_KEY]\<rparr>) of
        (Inl e, w2) \<Rightarrow> (VArr [], w2)
      | (Inr validResults, w2) \<Rightarrow> (validResults, w2))"
  by (simp add: fetchPokemonList_def getItem_def case_prod_beta)

lemma fetchPokemonList_hit:
  "cached_value (fst (getItem env POKEMON_LIST_CACHE_KEY w)) = Some v \<Longrightarrow>
   fetchPokemonList env w = (v, w\<lparr>trace := trace w @ [GetItem POKEMON_LIST_CACHE_KEY]\<rparr>)"
  by (simp add: fetchPokemonList_def getItem_def case_prod_beta)

subsection \<open>getPokemonBasic\<close>

lemma get_prop_member: "\<not> nullish v \<Longrightarrow> get_prop v k = Inr (member_of v k)"
  by (cases v) (simp_all add: nullish_def split: option.splits)

lemma opt_get_member: "opt_get v k = Inr (member_of v k)"
  by (cases v) (simp_all add: opt_get_def nullish_def split: option.splits)

lemma present_truthy: "present v = truthy v"
  by (cases v) (auto simp: present_def split: number.splits)

lemma select_sprite_policy:
  "\<not> nullish d \<Longrightarrow>
   select_sprite d = Inr (sprite_policy
      (at_path d [''sprites'', ''other'', ''official-artwork'', ''front_default''])
      (at_path d [''sprites'', ''front_default'']))"
  by (simp add: select_sprite_def official_artwork_def front_default_def get_prop_member
      opt_get_member then_err_def sprite_policy_def present_truthy or_else_def at_path_def)

lemma traverse_map: "(\<And>x. x \<in> set xs \<Longrightarrow> f x = Inr (g x)) \<Longrightarrow> traverse f xs = Inr (map g xs)"
  by (induction xs) simp_all

lemma type_name_read:
  "\<not> nullish t \<Longrightarrow>
   then_err (get_prop t ''type'') (\<lambda>ty. opt_get ty ''name'') = Inr (at_path t [''type'', ''name''])"
  by (simp add: get_prop_member opt_get_member then_err_def at_path_def)

lemma type_name_throws:
  "nullish t \<Longrightarrow> isl (then_err (get_prop t ''type'') (\<lambda>ty. opt_get ty ''name''))"
  by (auto simp: nullish_def then_err_def)

lemma basic_types_readable:
  assumes "basic_readable d"
  shows "basic_types d = Inr (type_names d)"
proof -
  from assms have d: "\<not> nullish d" by (simp add: basic_readable_def nullish_def)
  show ?thesis
  proof (cases "member_of d ''types''")
    case (VArr ts)
    with assms have "\<And>t. t \<in> set ts \<Longrightarrow> \<not> nullish t"
      by (auto simp: basic_readable_def nullish_def)
    then have "traverse (\<lambda>t. then_err (get_prop t ''type'') (\<lambda>ty. opt_get ty ''name'')) ts
        = Inr (map (\<lambda>t. at_path t [''type'', ''name'']) ts)"
      by (intro traverse_map type_name_read)
    with VArr d show ?thesis
      by (simp add: basic_types_def type_names_def get_prop_member then_err_def call_map_def
          nullish_def or_else_def)
  qed (use assms d in \<open>simp_all add: basic_types_def type_names_def get_prop_member then_err_def
         nullish_def or_else_def basic_readable_def\<close>)
qed

lemma basic_types_unreadable:
  assumes "\<not> nullish d" and "\<not> basic_readable d"
  shows "isl (basic_types d)"
proof (cases "member_of d ''types''")
  case (VArr ts)
  with assms obtain t where t: "t \<in> set ts" "nullish t"
    by (auto simp: basic_readable_def nullish_def)
  then have "isl (traverse (\<lambda>t. then_err (get_prop t ''type'') (\<lambda>ty. opt_get ty ''name'')) ts)"
    unfolding isl_traverse using type_name_throws by blast
  then obtain e where
    "traverse (\<lambda>t. then_err (get_prop t ''type'') (\<lambda>ty. opt_get ty ''name'')) ts = Inl e"
    by (cases "traverse (\<lambda>t. then_err (get_prop t ''type'') (\<lambda>ty. opt_get ty ''name'')) ts") auto
  with VArr assms(1) show ?thesis
    by (simp add: basic_types_def get_prop_member call_map_def nullish_def then_err_def
        cong: sum.case_cong)
qed (use assms in \<open>simp_all add: basic_types_def get_prop_member then_err_def call_map_def
       nullish_def basic_readable_def\<close>)

text \<open>What the source reads off a body is the lookup of the specification.\<close>

lemma basic_of_json_readable: "basic_readable d \<Longrightarrow> basic_of_json d = Inr (basic_lookup d)"
proof -
  assume r: "basic_readable d"
  then have d: "\<not> nullish d" by (simp add: basic_readable_def nullish_def)
  show ?thesis
    by (simp add: basic_of_json_def select_sprite_policy [OF d] basic_types_readable [OF r]
        get_prop_member [OF d] then_err_def basic_lookup_def)
qed

lemma basic_of_json_unreadable: "\<not> basic_readable d \<Longrightarrow> isl (basic_of_json d)"
proof (cases "nullish d")
  case True
  then show ?thesis
    by (auto simp: basic_of_json_def select_sprite_def official_artwork_def then_err_def
        nullish_def)
next
  case False
  assume "\<not> basic_readable d"
  with False have "isl (basic_types d)" by (rule basic_types_unreadable)
  then obtain e where "basic_types d = Inl e" by (cases "basic_types d") auto
  with False show ?thesis
    by (simp add: basic_of_json_def select_sprite_policy get_prop_member then_err_def)
qed

lemma getPokemonBasic_eq:
  "getPokemonBasic env k w =
     (case basic_try (net env (trace w) (basic_url k)) of Inl e \<Rightarrow> VNull | Inr b \<Rightarrow> b,
      w\<lparr>trace := trace w @ [Fetch (basic_url k)]\<rparr>)"
  by (cases "basic_try (net env (trace w) (basic_url k))")
     (simp_all add: getPokemonBasic_def fetch_def)

lemma basic_try_failed: "fetch_fails r \<Longrightarrow> isl (basic_try r)"
  by (auto simp: basic_try_def fetch_fails_def split: response.splits)

lemma basic_try_body: "basic_try (Response True (Some d)) = basic_of_json d"
  by (simp add: basic_try_def)

subsection \<open>takeCapture\<close>

lemma stringify_captured_meta:
  "JSON_stringify (captured_meta scr uri now) =
     Some (CaptureRecord (selectedPokemonId scr) (''pokemon-'' @ number_text (selectedPokemonId scr))
             (selectedPokemonSprite scr) uri now)"
  by (cases "selectedPokemonSprite scr")
     (simp_all add: captured_meta_def CaptureRecord_def List.map_filter_simps object_slot_def
        number_slot_def number_string_def)

lemma existing_captures_persisted:
  "persisted_captures raw = Some xs \<Longrightarrow>
     existing_captures raw = Inr (VArr (map JSON_parse_value xs))"
  by (induction raw rule: persisted_captures.induct) (simp_all add: existing_captures_def)

lemma captured_snoc [simp]:
  "captured (w\<lparr>trace := t @ [e]\<rparr>) \<longleftrightarrow> e = Alert ''Captured!'' ''Pokemon saved to your gallery.''"
  by (simp add: captured_def)

lemma takeCapture_captured:
  assumes "camera_current scr" and "captured (takeCapture env scr w)"
    and "persisted_captures (storage w ''captures'') = Some xs"
  shows "\<exists>path. take_photo env (trace w) = Some path
       \<and> storage (takeCapture env scr w) = (storage w)(''captures'' \<mapsto> Json_text (JArr (xs @
           [CaptureRecord (selectedPokemonId scr)
              (''pokemon-'' @ number_text (selectedPokemonId scr))
              (selectedPokemonSprite scr)
              (if platform_os env = ''android'' then ''file://'' @ path else path)
              (date_now env (trace w @ [TakePhoto]))])))"
proof (cases "capture_try env scr w")
  case (Pair r w')
  show ?thesis
  proof (cases r)
    case (Inl e)
    with Pair assms(1,2) show ?thesis by (simp add: takeCapture_def alert_def)
  next
    case (Inr u)
    from Pair Inr obtain path where path: "take_photo env (trace w) = Some path"
      by (cases "take_photo env (trace w)") (auto simp: capture_try_def takePhoto_def)
    let ?w1 = "w\<lparr>trace := trace w @ [TakePhoto]\<rparr>"
    let ?w2 = "?w1\<lparr>trace := trace ?w1 @ [GetItem ''captures'']\<rparr>"
    let ?entry = "captured_meta scr (photo_uri (platform_os env) path) (date_now env (trace ?w1))"
    from Pair Inr path have nf: "\<not> read_fails env (trace ?w1) ''captures''"
      by (auto simp: capture_try_def takePhoto_def getItem_def split: if_splits)
    have ex: "then_err (existing_captures (storage w ''captures'')) (\<lambda>existing. call_push existing ?entry)
        = Inr (VArr (map JSON_parse_value xs @ [?entry]))"
      by (simp add: existing_captures_persisted [OF assms(3)] then_err_def call_push_def)
    from Pair Inr path nf ex obtain w3 where
      s: "setItem env ''captures'' (JSON_stringify (VArr (map JSON_parse_value xs @ [?entry]))) ?w2 = (Inr (), w3)"
      and w': "w' = alert ''Captured!'' ''Pokemon saved to your gallery.'' w3"
      by (auto simp: capture_try_def takePhoto_def getItem_def split: sum.splits prod.splits)
    have str: "JSON_stringify (VArr (map JSON_parse_value xs @ [?entry])) =
        Some (JArr (xs @ [CaptureRecord (selectedPokemonId scr)
           (''pokemon-'' @ number_text (selectedPokemonId scr))
           (selectedPokemonSprite scr) (photo_uri (platform_os env) path)
           (date_now env (trace ?w1))]))"
      unfolding stringify_array_parsed stringify_captured_meta by (simp add: array_slot_def)
    from setItem_Inr [OF s [unfolded str]] have "storage w3 = (storage w)(''captures'' \<mapsto> Json_text (JArr (xs @
        [CaptureRecord (selectedPokemonId scr) (''pokemon-'' @ number_text (selectedPokemonId scr))
           (selectedPokemonSprite scr) (photo_uri (platform_os env) path) (date_now env (trace ?w1))])))"
      by auto
    with Pair Inr w' assms(1) path show ?thesis
      by (simp add: takeCapture_def alert_def photo_uri_def)
  qed
qed

section \<open>Properties of the catalog client\<close>

subsection \<open>C1: a second fetchPokemonList is served from the cache\<close>

text \<open>
  Claim C1, amended. Let a call of \<^verbatim>\<open>fetchPokemonList\<close> return \<open>r1\<close> after completing with a
  successful write of the list cache (the write is the last effect of the call). A later
  call, made while the store still holds that entry and whose cache read does not fail,
  returns \<^verbatim>\<open>JSON.parse(JSON.stringify(r1))\<close> and performs no network call: its only effect
  is the cache read, and the store is unchanged. The value returned is \<open>r1\<close> itself exactly
  when \<open>r1\<close> survives JSON: it holds no \<^verbatim>\<open>undefined\<close>, no infinite number and no negative
  zero.
\<close>

theorem second_fetchList_hits_cache:
  assumes "fetchPokemonList env w = (r1, w1)"
    and "last (trace w1) = SetItem POKEMON_LIST_CACHE_KEY j"
    and "storage w2 POKEMON_LIST_CACHE_KEY = storage w1 POKEMON_LIST_CACHE_KEY"
    and "\<not> read_fails env (trace w2) POKEMON_LIST_CACHE_KEY"
  shows "fetchPokemonList env w2 =
           (JSON_roundtrip r1, w2\<lparr>trace := trace w2 @ [GetItem POKEMON_LIST_CACHE_KEY]\<rparr>)
       \<and> (JSON_roundtrip r1 = r1) = survives_json r1"
proof -
  let ?w0 = "w\<lparr>trace := trace w @ [GetItem POKEMON_LIST_CACHE_KEY]\<rparr>"
  have miss: "cached_value (fst (getItem env POKEMON_LIST_CACHE_KEY w)) = None"
  proof (cases "cached_value (fst (getItem env POKEMON_LIST_CACHE_KEY w))")
    case (Some v)
    from assms(1) have "trace w1 = trace w @ [GetItem POKEMON_LIST_CACHE_KEY]"
      by (auto simp: fetchPokemonList_hit [OF Some])
    with assms(2) show ?thesis by simp
  qed simp
  obtain r w' where r: "list_from_network env ?w0 = (r, w')"
    by (cases "list_from_network env ?w0")
  have "\<exists>j'. JSON_stringify r1 = Some j' \<and> storage w1 POKEMON_LIST_CACHE_KEY = Some (Json_text j')"
  proof (cases r)
    case (Inl e)
    with r assms(1) have "w1 = w'" by (simp add: fetchPokemonList_miss [OF miss])
    with r Inl list_from_network_Inl [of env ?w0 e w'] have "no_list_write (trace w1)" by simp
    with assms(2) show ?thesis by (cases "trace w1" rule: rev_cases) (auto simp: no_list_write_def)
  next
    case (Inr v)
    with r assms(1) have "w1 = w'" "r1 = v" by (simp_all add: fetchPokemonList_miss [OF miss])
    with r Inr list_from_network_Inr [of env ?w0 v w'] show ?thesis by auto
  qed
  then obtain j' where j': "JSON_stringify r1 = Some j'"
    and st: "storage w1 POKEMON_LIST_CACHE_KEY = Some (Json_text j')" by blast
  have "cached_value (fst (getItem env POKEMON_LIST_CACHE_KEY w2)) = Some (JSON_parse_value j')"
    using assms(3,4) st by simp
  from fetchPokemonList_hit [OF this] j' have "fetchPokemonList env w2 =
      (JSON_roundtrip r1, w2\<lparr>trace := trace w2 @ [GetItem POKEMON_LIST_CACHE_KEY]\<rparr>)"
    by (simp add: JSON_roundtrip_def)
  with roundtrip_iff [OF j'] show ?thesis by simp
qed

text \<open>
  Witness for C1: with an API that serves the pikachu record, the second call on the world
  left by the first returns the first call's list and adds only the cache read.
\<close>

theorem second_fetchList_hits_cache_witness:
  "fetchPokemonList (steady_env pikachu_api)
     (snd (fetchPokemonList (steady_env pikachu_api) empty_world))
   = (fst (fetchPokemonList (steady_env pikachu_api) empty_world),
      (snd (fetchPokemonList (steady_env pikachu_api) empty_world))
        \<lparr>trace := trace (snd (fetchPokemonList (steady_env pikachu_api) empty_world))
                    @ [GetItem POKEMON_LIST_CACHE_KEY]\<rparr>)"
proof -
  let ?F = "fetchPokemonList (steady_env pikachu_api) empty_world"
  have first: "?F = (fst ?F, snd ?F)" by simp
  have written: "last (trace (snd ?F)) =
      SetItem POKEMON_LIST_CACHE_KEY (JArr [entry_json_with_types (JArr [JStr ''electric''])])"
    by code_simp
  have readable: "\<not> read_fails (steady_env pikachu_api) (trace (snd ?F)) POKEMON_LIST_CACHE_KEY"
    by (simp add: steady_env_def)
  have clean: "survives_json (fst ?F)" by code_simp
  from second_fetchList_hits_cache [OF first written refl readable] clean
  show ?thesis by simp
qed

text \<open>
  C1 as stated fails, in three ways; in each the index lists one entry and the first call
  completes with a successful write of the list cache. First, the record has a type entry
  without a name, \<^verbatim>\<open>types: [{type: {}}]\<close>: the first call returns an entry with
  \<^verbatim>\<open>types: [undefined]\<close>, the second the cached list, in which that array is \<^verbatim>\<open>[null]\<close>.
  Second, the record has \<^verbatim>\<open>weight: 1e400\<close>, which \<^verbatim>\<open>json()\<close> reads as \<^verbatim>\<open>Infinity\<close>: the
  first call returns \<^verbatim>\<open>weight: Infinity\<close>, the second \<^verbatim>\<open>weight: null\<close>. Third, the reads of
  the store fail: the second call asks the network for the index again.
\<close>

theorem second_fetchList_counterexample:
  "(last (trace (snd (fetchPokemonList (steady_env nameless_api) empty_world))) =
      SetItem POKEMON_LIST_CACHE_KEY (JArr [entry_json_with_types (JArr [JNull])])
    \<and> fst (fetchPokemonList (steady_env nameless_api) empty_world)
        = VArr [entry_with (VArr [VUndefined]) (VInt 60)]
    \<and> fst (fetchPokemonList (steady_env nameless_api)
             (snd (fetchPokemonList (steady_env nameless_api) empty_world)))
        = VArr [entry_with (VArr [VNull]) (VInt 60)]
    \<and> fst (fetchPokemonList (steady_env nameless_api)
             (snd (fetchPokemonList (steady_env nameless_api) empty_world)))
        \<noteq> fst (fetchPokemonList (steady_env nameless_api) empty_world))
   \<and> (fst (fetchPokemonList (steady_env heavy_api) empty_world)
        = VArr [entry_with (VArr [VStr ''electric'']) (VNum (Infinite True))]
    \<and> fst (fetchPokemonList (steady_env heavy_api)
             (snd (fetchPokemonList (steady_env heavy_api) empty_world)))
        = VArr [entry_with (VArr [VStr ''electric'']) VNull]
    \<and> fst (fetchPokemonList (steady_env heavy_api)
             (snd (fetchPokemonList (steady_env heavy_api) empty_world)))
        \<noteq> fst (fetchPokemonList (steady_env heavy_api) empty_world))
   \<and> (last (trace (snd (fetchPokemonList (unreadable_store (steady_env pikachu_api))
                          empty_world))) =
      SetItem POKEMON_LIST_CACHE_KEY (JArr [entry_json_with_types (JArr [JStr ''electric''])])
    \<and> Fetch list_url \<in> set (effects_between
          (snd (fetchPokemonList (unreadable_store (steady_env pikachu_api)) empty_world))
          (snd (fetchPokemonList (unreadable_store (steady_env pikachu_api))
                 (snd (fetchPokemonList (unreadable_store (steady_env pikachu_api))
                        empty_world))))))"
  by code_simp

subsection \<open>C2: a second fetchPokemonDetail is served from the cache\<close>

text \<open>
  Claim C2, amended. Let a call of \<^verbatim>\<open>fetchPokemonDetail\<close> for a key return a non-null entry
  \<open>r1\<close> and write it to the cache (the write is the last effect of the call). A later call
  with the same key, made while the store still holds that entry and whose cache read does
  not fail, returns \<^verbatim>\<open>JSON.parse(JSON.stringify(r1))\<close> and performs no network call: its
  only effect is the cache read. The value returned is \<open>r1\<close> itself exactly when \<open>r1\<close>
  survives JSON: it holds no \<^verbatim>\<open>undefined\<close>, no infinite number and no negative zero.
\<close>

theorem second_fetchDetail_hits_cache:
  assumes "fetchPokemonDetail env k w = (r1, w1)"
    and "r1 \<noteq> VNull"
    and "last (trace w1) = SetItem (detail_cache_key k) j"
    and "storage w2 (detail_cache_key k) = storage w1 (detail_cache_key k)"
    and "\<not> read_fails env (trace w2) (detail_cache_key k)"
  shows "fetchPokemonDetail env k w2 =
           (JSON_roundtrip r1, w2\<lparr>trace := trace w2 @ [GetItem (detail_cache_key k)]\<rparr>)
       \<and> (JSON_roundtrip r1 = r1) = survives_json r1"
proof -
  let ?w0 = "w\<lparr>trace := trace w @ [GetItem (detail_cache_key k)]\<rparr>"
  have miss: "cached_value (fst (getItem env (detail_cache_key k) w)) = None"
  proof (cases "cached_value (fst (getItem env (detail_cache_key k) w))")
    case (Some v)
    from assms(1) have "trace w1 = trace w @ [GetItem (detail_cache_key k)]"
      by (auto simp: fetchPokemonDetail_hit [OF Some])
    with assms(3) show ?thesis by simp
  qed simp
  obtain r w' where r: "detail_from_network env k (detail_cache_key k) ?w0 = (r, w')"
    by (cases "detail_from_network env k (detail_cache_key k) ?w0")
  have "\<exists>j'. JSON_stringify r1 = Some j' \<and> storage w1 (detail_cache_key k) = Some (Json_text j')"
  proof (cases r)
    case (Inl e)
    with r assms(1) have "w1 = w'" by (simp add: fetchPokemonDetail_miss [OF miss])
    with r Inl assms(3) detail_from_network_Inl [of env k "detail_cache_key k" ?w0 e w']
    show ?thesis by auto
  next
    case (Inr d)
    with r assms(1) have "w1 = w'" "r1 = d" by (simp_all add: fetchPokemonDetail_miss [OF miss])
    with r Inr detail_from_network_Inr [of env k "detail_cache_key k" ?w0 d w']
    show ?thesis by auto
  qed
  then obtain j' where j': "JSON_stringify r1 = Some j'"
    and st: "storage w1 (detail_cache_key k) = Some (Json_text j')" by blast
  have "cached_value (fst (getItem env (detail_cache_key k) w2)) = Some (JSON_parse_value j')"
    using assms(4,5) st by simp
  from fetchPokemonDetail_hit [OF this] j' have "fetchPokemonDetail env k w2 =
      (JSON_roundtrip r1, w2\<lparr>trace := trace w2 @ [GetItem (detail_cache_key k)]\<rparr>)"
    by (simp add: JSON_roundtrip_def)
  with roundtrip_iff [OF j'] show ?thesis by simp
qed

text \<open>Witness for C2: the pikachu record, fetched twice for the key 25.\<close>

theorem second_fetchDetail_hits_cache_witness:
  "fetchPokemonDetail (steady_env pikachu_api) (VInt 25)
     (snd (fetchPokemonDetail (steady_env pikachu_api) (VInt 25) empty_world))
   = (fst (fetchPokemonDetail (steady_env pikachu_api) (VInt 25) empty_world),
      (snd (fetchPokemonDetail (steady_env pikachu_api) (VInt 25) empty_world))
        \<lparr>trace := trace (snd (fetchPokemonDetail (steady_env pikachu_api) (VInt 25) empty_world))
                    @ [GetItem (detail_cache_key (VInt 25))]\<rparr>)"
proof -
  let ?D = "fetchPokemonDetail (steady_env pikachu_api) (VInt 25) empty_world"
  have first: "?D = (fst ?D, snd ?D)" by simp
  have entry: "fst ?D \<noteq> VNull" by code_simp
  have written: "last (trace (snd ?D)) =
      SetItem (detail_cache_key (VInt 25)) (entry_json_with_types (JArr [JStr ''electric'']))"
    by code_simp
  have readable: "\<not> read_fails (steady_env pikachu_api) (trace (snd ?D)) (detail_cache_key (VInt 25))"
    by (simp add: steady_env_def)
  have clean: "survives_json (fst ?D)" by code_simp
  from second_fetchDetail_hits_cache [OF first entry written refl readable] clean
  show ?thesis by simp
qed

text \<open>
  C2 as stated fails, in three ways; in each the first call for the key 25 returns a
  non-null entry and writes it to the cache. First, the record has a type entry without a
  name: the first call returns \<^verbatim>\<open>types: [undefined]\<close>, the second the cached entry, with
  \<^verbatim>\<open>types: [null]\<close>. Second, the record has \<^verbatim>\<open>weight: 1e400\<close>, which \<^verbatim>\<open>json()\<close> reads as
  \<^verbatim>\<open>Infinity\<close>: the first call returns \<^verbatim>\<open>weight: Infinity\<close>, the second \<^verbatim>\<open>weight: null\<close>.
  Third, the reads of the store fail: the second call asks the network again.
\<close>

theorem second_fetchDetail_counterexample:
  "(last (trace (snd (fetchPokemonDetail (steady_env nameless_api) (VInt 25) empty_world))) =
      SetItem (detail_cache_key (VInt 25)) (entry_json_with_types (JArr [JNull]))
    \<and> fst (fetchPokemonDetail (steady_env nameless_api) (VInt 25) empty_world)
        = entry_with (VArr [VUndefined]) (VInt 60)
    \<and> fst (fetchPokemonDetail (steady_env nameless_api) (VInt 25)
             (snd (fetchPokemonDetail (steady_env nameless_api) (VInt 25) empty_world)))
        = entry_with (VArr [VNull]) (VInt 60)
    \<and> fst (fetchPokemonDetail (steady_env nameless_api) (VInt 25)
             (snd (fetchPokemonDetail (steady_env nameless_api) (VInt 25) empty_world)))
        \<noteq> fst (fetchPokemonDetail (steady_env nameless_api) (VInt 25) empty_world))
   \<and> (fst (fetchPokemonDetail (steady_env heavy_api) (VInt 25) empty_world)
        = entry_with (VArr [VStr ''electric'']) (VNum (Infinite True))
    \<and> fst (fetchPokemonDetail (steady_env heavy_api) (VInt 25)
             (snd (fetchPokemonDetail (steady_env heavy_api) (VInt 25) empty_world)))
        = entry_with (VArr [VStr ''electric'']) VNull
    \<and> fst (fetchPokemonDetail (steady_env heavy_api) (VInt 25)
             (snd (fetchPokemonDetail (steady_env heavy_api) (VInt 25) empty_world)))
        \<noteq> fst (fetchPokemonDetail (steady_env heavy_api) (VInt 25) empty_world))
   \<and> (fst (fetchPokemonDetail (unreadable_store (steady_env pikachu_api)) (VInt 25) empty_world)
        = pikachu_entry
    \<and> last (trace (snd (fetchPokemonDetail (unreadable_store (steady_env pikachu_api))
                          (VInt 25) empty_world))) =
        SetItem (detail_cache_key (VInt 25)) (entry_json_with_types (JArr [JStr ''electric'']))
    \<and> Fetch pikachu_url \<in> set (effects_between
          (snd (fetchPokemonDetail (unreadable_store (steady_env pikachu_api)) (VInt 25)
                 empty_world))
          (snd (fetchPokemonDetail (unreadable_store (steady_env pikachu_api)) (VInt 25)
                 (snd (fetchPokemonDetail (unreadable_store (steady_env pikachu_api)) (VInt 25)
                        empty_world))))))"
  by code_simp

subsection \<open>C3: the pikachu scenario\<close>

text \<open>
  Claim C3, amended. On the uncached key 25 (cache key \<^verbatim>\<open>pokemon_detail_25\<close>, see \<open>key_25\<close>),
  if the primary endpoint answers \<^verbatim>\<open>ok\<close> with the pikachu record, the species endpoint
  \<^verbatim>\<open>url2\<close> answers with \<^verbatim>\<open>{flavor_text_entries: []}\<close>, and the store accepts the write of the
  entry, then \<^verbatim>\<open>fetchPokemonDetail(25)\<close> returns exactly the entry of the scenario.
\<close>

theorem fetchDetail_pikachu_scenario:
  assumes "storage w (detail_cache_key (VInt 25)) = None"
    and "primary_response env (VInt 25) w = Response True (Some pikachu_record)"
    and "net env (trace w @ [GetItem (detail_cache_key (VInt 25)), Fetch (detail_url (VInt 25))]) ''url2''
           = Response ok (Some pikachu_species)"
    and "\<not> write_fails env (trace w @ [GetItem (detail_cache_key (VInt 25)),
           Fetch (detail_url (VInt 25)), Fetch ''url2'']) (detail_cache_key (VInt 25))
           (entry_json_with_types (JArr [JStr ''electric'']))"
  shows "fst (fetchPokemonDetail env (VInt 25) w) = pikachu_entry"
proof -
  let ?w1 = "w\<lparr>trace := trace w @ [GetItem (detail_cache_key (VInt 25))]\<rparr>"
  have miss: "cached_value (fst (getItem env (detail_cache_key (VInt 25)) w)) = None"
    using assms(1) by simp
  have primary: "net env (trace ?w1) (detail_url (VInt 25)) = Response True (Some pikachu_record)"
    using assms(2) by (simp add: primary_response_def)
  have species: "fetch_species env pikachu_record
      (?w1\<lparr>trace := trace ?w1 @ [Fetch (detail_url (VInt 25))]\<rparr>)
      = (pikachu_species,
         ?w1\<lparr>trace := trace ?w1 @ [Fetch (detail_url (VInt 25)), Fetch ''url2'']\<rparr>)"
    using assms(3) by (intro species_of_pikachu) simp
  show ?thesis
    unfolding fetchPokemonDetail_miss [OF miss] detail_from_network_body [OF primary] species
    using assms(4)
    by (simp add: assemble_pikachu setItem_def pikachu_entry_def entry_with_def
        pikachu_species_def entry_json_with_types_def List.map_filter_simps object_slot_def
        array_slot_def number_slot_def)
qed

text \<open>Witness for C3: the scenario on an empty store that never fails.\<close>

theorem fetchDetail_pikachu_scenario_witness:
  "storage empty_world (detail_cache_key (VInt 25)) = None
   \<and> fst (fetchPokemonDetail (steady_env pikachu_api) (VInt 25) empty_world) = pikachu_entry"
proof -
  have uncached: "storage empty_world (detail_cache_key (VInt 25)) = None"
    by (simp add: empty_world_def)
  have primary: "primary_response (steady_env pikachu_api) (VInt 25) empty_world
      = Response True (Some pikachu_record)"
    by code_simp
  have species: "net (steady_env pikachu_api)
      (trace empty_world @ [GetItem (detail_cache_key (VInt 25)), Fetch (detail_url (VInt 25))])
      ''url2'' = Response True (Some pikachu_species)"
    by code_simp
  have accepted: "\<not> write_fails (steady_env pikachu_api)
      (trace empty_world @ [GetItem (detail_cache_key (VInt 25)), Fetch (detail_url (VInt 25)),
         Fetch ''url2'']) (detail_cache_key (VInt 25))
      (entry_json_with_types (JArr [JStr ''electric'']))"
    by (simp add: steady_env_def)
  from fetchDetail_pikachu_scenario [OF uncached primary species accepted] uncached
  show ?thesis by simp
qed

text \<open>
  C3 as stated fails when the store refuses the write: the key is uncached, both endpoints
  answer as in the scenario, and the rejected \<^verbatim>\<open>setItem\<close> is caught by the outer \<^verbatim>\<open>catch\<close>,
  which returns \<^verbatim>\<open>null\<close>.
\<close>

theorem fetchDetail_pikachu_counterexample:
  "storage empty_world (detail_cache_key (VInt 25)) = None
   \<and> primary_response (refusing_store (steady_env pikachu_api)) (VInt 25) empty_world
       = Response True (Some pikachu_record)
   \<and> net (refusing_store (steady_env pikachu_api))
       (trace empty_world @ [GetItem (detail_cache_key (VInt 25)), Fetch (detail_url (VInt 25))])
       ''url2'' = Response True (Some pikachu_species)
   \<and> fst (fetchPokemonDetail (refusing_store (steady_env pikachu_api)) (VInt 25) empty_world)
       = VNull
   \<and> fst (fetchPokemonDetail (refusing_store (steady_env pikachu_api)) (VInt 25) empty_world)
       \<noteq> pikachu_entry"
  by code_simp

subsection \<open>C4: a failed index fetch gives the empty list\<close>

text \<open>
  Claim C4. When nothing is cached under the list key and the index request fails (the
  promise rejects, the response is not \<^verbatim>\<open>ok\<close>, or its body is not JSON),
  \<^verbatim>\<open>fetchPokemonList\<close> returns the empty list. Its only effects are the cache read and the
  index request. The function returns a value on every path: no exception reaches the
  caller.
\<close>

theorem index_failure_gives_empty_list:
  assumes "storage w POKEMON_LIST_CACHE_KEY = None"
    and "fetch_fails (net env (trace w @ [GetItem POKEMON_LIST_CACHE_KEY]) list_url)"
  shows "fetchPokemonList env w =
           (VArr [], w\<lparr>trace := trace w @ [GetItem POKEMON_LIST_CACHE_KEY, Fetch list_url]\<rparr>)"
proof -
  have miss: "cached_value (fst (getItem env POKEMON_LIST_CACHE_KEY w)) = None"
    using assms(1) by simp
  from assms(2) list_from_network_failed
    [of env "w\<lparr>trace := trace w @ [GetItem POKEMON_LIST_CACHE_KEY]\<rparr>"]
  show ?thesis by (auto simp: fetchPokemonList_miss [OF miss])
qed

text \<open>Witness for C4: an index endpoint that answers with a response that is not \<^verbatim>\<open>ok\<close>.\<close>

theorem index_failure_gives_empty_list_witness:
  "fetchPokemonList (steady_env [(list_url, Response False None)]) empty_world =
     (VArr [], empty_world\<lparr>trace := trace empty_world @
        [GetItem POKEMON_LIST_CACHE_KEY, Fetch list_url]\<rparr>)"
proof -
  have empty: "storage empty_world POKEMON_LIST_CACHE_KEY = None"
    by (simp add: empty_world_def)
  have failed: "fetch_fails (net (steady_env [(list_url, Response False None)])
      (trace empty_world @ [GetItem POKEMON_LIST_CACHE_KEY]) list_url)"
    by (simp add: steady_env_def routes_def fetch_fails_def)
  from index_failure_gives_empty_list [OF empty failed] show ?thesis .
qed

subsection \<open>C5: a failed species fetch degrades to an empty payload\<close>

text \<open>
  Claim C5, amended. For an uncached key, if the primary fetch succeeds with a well-formed
  record, the species block throws (the record has no \<^verbatim>\<open>species.url\<close> to read, the species
  request rejects, or its body is not JSON), and the cache write does not fail, then
  \<^verbatim>\<open>fetchPokemonDetail\<close> returns a non-null entry whose \<^verbatim>\<open>speciesData\<close> is the empty object.
  The statement says nothing about a species response that is not \<^verbatim>\<open>ok\<close> and has a JSON
  body: the species block does not check \<^verbatim>\<open>ok\<close>, as the primary request does.
\<close>

theorem species_failure_degrades:
  assumes "storage w (detail_cache_key k) = None"
    and "primary_response env k w = Response True (Some j)"
    and "well_formed_record j"
    and "species_fetch_throws env
           (trace w @ [GetItem (detail_cache_key k), Fetch (detail_url k)]) j"
    and "last (trace (snd (fetchPokemonDetail env k w))) \<noteq> SetItemFailed (detail_cache_key k)"
  shows "fst (fetchPokemonDetail env k w) \<noteq> VNull
       \<and> get_prop (fst (fetchPokemonDetail env k w)) ''speciesData'' = Inr (VObj [])"
proof -
  let ?w1 = "w\<lparr>trace := trace w @ [GetItem (detail_cache_key k)]\<rparr>"
  let ?w2 = "?w1\<lparr>trace := trace ?w1 @ [Fetch (detail_url k)]\<rparr>"
  have miss: "cached_value (fst (getItem env (detail_cache_key k) w)) = None"
    using assms(1) by simp
  have primary: "net env (trace ?w1) (detail_url k) = Response True (Some j)"
    using assms(2) by (simp add: primary_response_def)
  have "\<not> fetch_fails (net env (trace ?w1) (detail_url k))"
    using primary by (simp add: fetch_fails_def)
  moreover have "last (trace (snd (detail_from_network env k (detail_cache_key k) ?w1)))
      \<noteq> SetItemFailed (detail_cache_key k)"
    using assms(5) by (simp add: fetchPokemonDetail_null_isl(2) [OF miss])
  ultimately have "\<not> isl (fst (detail_from_network env k (detail_cache_key k) ?w1))"
    using primary assms(3) by (simp add: detail_from_network_isl)
  then obtain d w' where d: "detail_from_network env k (detail_cache_key k) ?w1 = (Inr d, w')"
    by (cases "detail_from_network env k (detail_cache_key k) ?w1";
        cases "fst (detail_from_network env k (detail_cache_key k) ?w1)") auto
  have species: "fst (fetch_species env j ?w2) = VObj []"
    using assms(4) by (intro fetch_species_throws) simp
  from d have "assemble_detail j (VObj []) = Inr d"
    unfolding detail_from_network_body [OF primary] species
    by (auto split: sum.splits prod.splits)
  then have "get_prop d ''speciesData'' = Inr (VObj [])" by (rule assemble_detail_species)
  moreover have "fst (fetchPokemonDetail env k w) = d"
    using d by (simp add: fetchPokemonDetail_miss [OF miss])
  moreover from d have "d \<noteq> VNull" using detail_from_network_Inr by blast
  ultimately show ?thesis by simp
qed

text \<open>Witness for C5: the pikachu record, with a species endpoint that rejects.\<close>

theorem species_failure_degrades_witness:
  "fst (fetchPokemonDetail (steady_env pikachu_api_without_species) (VInt 25) empty_world) \<noteq> VNull
   \<and> get_prop (fst (fetchPokemonDetail (steady_env pikachu_api_without_species) (VInt 25)
                  empty_world)) ''speciesData'' = Inr (VObj [])"
proof -
  have uncached: "storage empty_world (detail_cache_key (VInt 25)) = None"
    by (simp add: empty_world_def)
  have primary: "primary_response (steady_env pikachu_api_without_species) (VInt 25) empty_world
      = Response True (Some pikachu_record)"
    by code_simp
  have wf: "well_formed_record pikachu_record" by code_simp
  have species: "species_fetch_throws (steady_env pikachu_api_without_species)
      (trace empty_world @ [GetItem (detail_cache_key (VInt 25)), Fetch (detail_url (VInt 25))])
      pikachu_record"
    by code_simp
  have written: "last (trace (snd (fetchPokemonDetail (steady_env pikachu_api_without_species)
      (VInt 25) empty_world))) \<noteq> SetItemFailed (detail_cache_key (VInt 25))"
    by code_simp
  from species_failure_degrades [OF uncached primary wf species written] show ?thesis .
qed

text \<open>
  C5 as stated fails in three ways, each with an uncached key, a primary fetch that succeeds
  and a species fetch that fails. First, the primary record has a \<^verbatim>\<open>types\<close> entry without a
  \<^verbatim>\<open>type\<close>: \<^verbatim>\<open>t.type.name\<close> throws and the result is \<^verbatim>\<open>null\<close>. Second, the record is the
  well-formed pikachu record and the store refuses the write: the result is \<^verbatim>\<open>null\<close>. Third,
  the species endpoint answers with an error status and the JSON body
  \<^verbatim>\<open>{detail: "Not found"}\<close>: the fetch has failed in the sense of \<open>fetch_fails\<close>, yet the entry
  carries that body as its \<^verbatim>\<open>speciesData\<close>.
\<close>

theorem species_failure_counterexample:
  "(primary_response (steady_env [(pikachu_url, Response True (Some untyped_record))])
        (VInt 25) empty_world = Response True (Some untyped_record)
    \<and> species_fetch_throws (steady_env [(pikachu_url, Response True (Some untyped_record))])
        (trace empty_world @ [GetItem (detail_cache_key (VInt 25)), Fetch (detail_url (VInt 25))])
        untyped_record
    \<and> fst (fetchPokemonDetail (steady_env [(pikachu_url, Response True (Some untyped_record))])
             (VInt 25) empty_world) = VNull)
   \<and> (primary_response (refusing_store (steady_env pikachu_api_without_species))
        (VInt 25) empty_world = Response True (Some pikachu_record)
    \<and> well_formed_record pikachu_record
    \<and> species_fetch_throws (refusing_store (steady_env pikachu_api_without_species))
        (trace empty_world @ [GetItem (detail_cache_key (VInt 25)), Fetch (detail_url (VInt 25))])
        pikachu_record
    \<and> fst (fetchPokemonDetail (refusing_store (steady_env pikachu_api_without_species))
             (VInt 25) empty_world) = VNull)
   \<and> (primary_response (steady_env pikachu_api_species_not_found) (VInt 25) empty_world
        = Response True (Some pikachu_record)
    \<and> fetch_fails (net (steady_env pikachu_api_species_not_found)
        (trace empty_world @ [GetItem (detail_cache_key (VInt 25)), Fetch (detail_url (VInt 25))])
        ''url2'')
    \<and> get_prop (fst (fetchPokemonDetail (steady_env pikachu_api_species_not_found) (VInt 25)
                   empty_world)) ''speciesData'' = Inr not_found_body
    \<and> not_found_body \<noteq> VObj [])"
  by code_simp

subsection \<open>C6: when fetchPokemonDetail returns null\<close>

text \<open>
  Claim C6, amended. For an uncached key, \<^verbatim>\<open>fetchPokemonDetail\<close> returns \<^verbatim>\<open>null\<close> if and only
  if the primary fetch fails (the promise rejects, the response is not \<^verbatim>\<open>ok\<close>, or its body
  is not JSON), or the primary record is not well-formed (assembling the entry throws), or
  the cache write fails. So whenever the primary fetch succeeds with a well-formed record
  and the cache write does not fail, the call returns a non-null entry.
\<close>

theorem fetchDetail_null_iff:
  assumes "storage w (detail_cache_key k) = None"
  shows "fst (fetchPokemonDetail env k w) = VNull \<longleftrightarrow>
           fetch_fails (primary_response env k w)
         \<or> (\<exists>j. primary_response env k w = Response True (Some j)
                \<and> \<not> well_formed_record j)
         \<or> last (trace (snd (fetchPokemonDetail env k w))) = SetItemFailed (detail_cache_key k)"
proof -
  have miss: "cached_value (fst (getItem env (detail_cache_key k) w)) = None"
    using assms by simp
  show ?thesis
    unfolding fetchPokemonDetail_null_isl [OF miss] detail_from_network_isl primary_response_def
    by simp
qed

text \<open>
  Witness for C6, in both directions: a network that rejects every request gives \<^verbatim>\<open>null\<close>;
  the pikachu record with a working store gives an entry.
\<close>

theorem fetchDetail_null_iff_witness:
  "fetch_fails (primary_response (steady_env []) (VInt 25) empty_world)
   \<and> fst (fetchPokemonDetail (steady_env []) (VInt 25) empty_world) = VNull
   \<and> fst (fetchPokemonDetail (steady_env pikachu_api) (VInt 25) empty_world) \<noteq> VNull"
proof -
  have uncached: "storage empty_world (detail_cache_key (VInt 25)) = None"
    by (simp add: empty_world_def)
  have failed: "fetch_fails (primary_response (steady_env []) (VInt 25) empty_world)"
    by (simp add: primary_response_def steady_env_def routes_def fetch_fails_def)
  have ok: "\<not> fetch_fails (primary_response (steady_env pikachu_api) (VInt 25) empty_world)"
    by code_simp
  have body: "primary_response (steady_env pikachu_api) (VInt 25) empty_world
      = Response True (Some pikachu_record)"
    by code_simp
  have wf: "well_formed_record pikachu_record" by code_simp
  have written: "last (trace (snd (fetchPokemonDetail (steady_env pikachu_api) (VInt 25)
      empty_world))) \<noteq> SetItemFailed (detail_cache_key (VInt 25))"
    by code_simp
  from fetchDetail_null_iff [OF uncached, of "steady_env []"] failed
  have "fst (fetchPokemonDetail (steady_env []) (VInt 25) empty_world) = VNull" by simp
  moreover from fetchDetail_null_iff [OF uncached, of "steady_env pikachu_api"] ok body wf written
  have "fst (fetchPokemonDetail (steady_env pikachu_api) (VInt 25) empty_world) \<noteq> VNull" by simp
  ultimately show ?thesis using failed by simp
qed

text \<open>
  C6 as stated fails in two ways, each with an uncached key and a primary fetch that does
  not fail. First, the record has an \<^verbatim>\<open>abilities\<close> entry without an \<^verbatim>\<open>ability\<close>:
  \<^verbatim>\<open>a.ability.name\<close> throws and the result is \<^verbatim>\<open>null\<close>. Second, the record is the well-formed pikachu record
  and the store refuses the write: the result is \<^verbatim>\<open>null\<close>.
\<close>

theorem fetchDetail_null_counterexample:
  "(\<not> fetch_fails (primary_response
         (steady_env [(pikachu_url, Response True (Some unskilled_record)),
                      (''url2'', Response True (Some pikachu_species))]) (VInt 25) empty_world)
    \<and> fst (fetchPokemonDetail
             (steady_env [(pikachu_url, Response True (Some unskilled_record)),
                          (''url2'', Response True (Some pikachu_species))])
             (VInt 25) empty_world) = VNull)
   \<and> (\<not> fetch_fails (primary_response (refusing_store (steady_env pikachu_api))
          (VInt 25) empty_world)
    \<and> primary_response (refusing_store (steady_env pikachu_api)) (VInt 25) empty_world
        = Response True (Some pikachu_record)
    \<and> well_formed_record pikachu_record
    \<and> fst (fetchPokemonDetail (refusing_store (steady_env pikachu_api)) (VInt 25) empty_world)
        = VNull)"
  by code_simp

subsection \<open>C7: getPokemonBasic\<close>

text \<open>
  Claim C7. \<^verbatim>\<open>getPokemonBasic\<close> does not touch the cache: its only effect is the request,
  and the store is unchanged. When the fetch fails (the promise rejects, the response is
  not \<^verbatim>\<open>ok\<close>, or its body is not JSON) it returns \<^verbatim>\<open>null\<close>, and so it does when the body
  cannot be read. Otherwise it returns the lookup of the specification, \<open>basic_lookup\<close>, whose
  \<^verbatim>\<open>sprite\<close> is the official artwork field of the response when that is present, else the
  default front sprite field when that is present, else \<^verbatim>\<open>null\<close>. A field is present when
  the response has it with a value other than \<^verbatim>\<open>null\<close>, \<^verbatim>\<open>false\<close>, the empty string and zero.
\<close>

theorem getPokemonBasic_policy:
  assumes "getPokemonBasic env k w = (r, w')"
  shows "w' = w\<lparr>trace := trace w @ [Fetch (basic_url k)]\<rparr>
       \<and> (fetch_fails (net env (trace w) (basic_url k)) \<longrightarrow> r = VNull)
       \<and> (\<forall>d. net env (trace w) (basic_url k) = Response True (Some d) \<longrightarrow>
              r = (if basic_readable d then basic_lookup d else VNull))"
proof (cases "net env (trace w) (basic_url k)" rule: response_cases)
  case 1
  from basic_try_failed [OF 1] obtain e where "basic_try (net env (trace w) (basic_url k)) = Inl e"
    by (cases "basic_try (net env (trace w) (basic_url k))") auto
  with assms 1 show ?thesis by (auto simp: getPokemonBasic_eq fetch_fails_def)
next
  case (2 d)
  then have nf: "\<not> fetch_fails (net env (trace w) (basic_url k))" by (simp add: fetch_fails_def)
  show ?thesis
  proof (cases "basic_readable d")
    case True
    with assms 2 nf show ?thesis
      by (simp add: getPokemonBasic_eq basic_try_body basic_of_json_readable)
  next
    case False
    from basic_of_json_unreadable [OF False] obtain e where "basic_of_json d = Inl e"
      by (cases "basic_of_json d") auto
    with assms 2 nf False show ?thesis by (simp add: getPokemonBasic_eq basic_try_body)
  qed
qed

text \<open>
  Witness for C7, one response for each case: a record with both sprites gives the official
  artwork, the pikachu record (default front sprite only) gives that sprite, a record
  without sprites gives \<^verbatim>\<open>null\<close> as sprite, the body \<^verbatim>\<open>null\<close> and a network that rejects give
  \<^verbatim>\<open>null\<close>; the only effect is the request.
\<close>

theorem getPokemonBasic_policy_witness:
  "getPokemonBasic (steady_env [(pikachu_url, Response True (Some artwork_record))])
       (VInt 25) empty_world
     = (VObj [(''id'', VInt 25), (''name'', VStr ''pikachu''), (''sprite'', VStr ''art1''),
              (''types'', VArr [VStr ''electric''])],
        empty_world\<lparr>trace := trace empty_world @ [Fetch (basic_url (VInt 25))]\<rparr>)
   \<and> fst (getPokemonBasic (steady_env pikachu_api) (VInt 25) empty_world)
     = VObj [(''id'', VInt 25), (''name'', VStr ''pikachu''), (''sprite'', VStr ''url1''),
             (''types'', VArr [VStr ''electric''])]
   \<and> fst (getPokemonBasic (steady_env [(pikachu_url, Response True (Some bare_record))])
            (VInt 25) empty_world)
     = VObj [(''id'', VInt 25), (''name'', VStr ''pikachu''), (''sprite'', VNull),
             (''types'', VArr [])]
   \<and> fst (getPokemonBasic (steady_env [(pikachu_url, Response True (Some VNull))])
            (VInt 25) empty_world) = VNull
   \<and> fst (getPokemonBasic (steady_env []) (VInt 25) empty_world) = VNull"
proof -
  let ?art = "steady_env [(pikachu_url, Response True (Some artwork_record))]"
  let ?bare = "steady_env [(pikachu_url, Response True (Some bare_record))]"
  let ?null = "steady_env [(pikachu_url, Response True (Some VNull))]"
  have run: "\<And>env. getPokemonBasic env (VInt 25) empty_world =
      (fst (getPokemonBasic env (VInt 25) empty_world),
       snd (getPokemonBasic env (VInt 25) empty_world))"
    by simp
  have art: "net ?art (trace empty_world) (basic_url (VInt 25))
      = Response True (Some artwork_record)"
    by code_simp
  have art_lookup: "basic_readable artwork_record \<and> basic_lookup artwork_record =
      VObj [(''id'', VInt 25), (''name'', VStr ''pikachu''), (''sprite'', VStr ''art1''),
            (''types'', VArr [VStr ''electric''])]"
    by code_simp
  have front: "net (steady_env pikachu_api) (trace empty_world) (basic_url (VInt 25))
      = Response True (Some pikachu_record)"
    by code_simp
  have front_lookup: "basic_readable pikachu_record \<and> basic_lookup pikachu_record =
      VObj [(''id'', VInt 25), (''name'', VStr ''pikachu''), (''sprite'', VStr ''url1''),
            (''types'', VArr [VStr ''electric''])]"
    by code_simp
  have bare: "net ?bare (trace empty_world) (basic_url (VInt 25))
      = Response True (Some bare_record)"
    by code_simp
  have bare_lookup: "basic_readable bare_record \<and> basic_lookup bare_record =
      VObj [(''id'', VInt 25), (''name'', VStr ''pikachu''), (''sprite'', VNull),
            (''types'', VArr [])]"
    by code_simp
  have null: "net ?null (trace empty_world) (basic_url (VInt 25)) = Response True (Some VNull)"
    by code_simp
  have unreadable: "\<not> basic_readable VNull" by code_simp
  have failed: "fetch_fails (net (steady_env []) (trace empty_world) (basic_url (VInt 25)))"
    by code_simp
  from getPokemonBasic_policy [OF run [of ?art]] art art_lookup
  have "getPokemonBasic ?art (VInt 25) empty_world
     = (VObj [(''id'', VInt 25), (''name'', VStr ''pikachu''), (''sprite'', VStr ''art1''),
              (''types'', VArr [VStr ''electric''])],
        empty_world\<lparr>trace := trace empty_world @ [Fetch (basic_url (VInt 25))]\<rparr>)"
    by (simp add: prod_eq_iff)
  moreover from getPokemonBasic_policy [OF run [of "steady_env pikachu_api"]] front front_lookup
  have "fst (getPokemonBasic (steady_env pikachu_api) (VInt 25) empty_world)
     = VObj [(''id'', VInt 25), (''name'', VStr ''pikachu''), (''sprite'', VStr ''url1''),
             (''types'', VArr [VStr ''electric''])]"
    by simp
  moreover from getPokemonBasic_policy [OF run [of ?bare]] bare bare_lookup
  have "fst (getPokemonBasic ?bare (VInt 25) empty_world)
     = VObj [(''id'', VInt 25), (''name'', VStr ''pikachu''), (''sprite'', VNull),
             (''types'', VArr [])]"
    by simp
  moreover from getPokemonBasic_policy [OF run [of ?null]] null unreadable
  have "fst (getPokemonBasic ?null (VInt 25) empty_world) = VNull" by simp
  moreover from getPokemonBasic_policy [OF run [of "steady_env []"]] failed
  have "fst (getPokemonBasic (steady_env []) (VInt 25) empty_world) = VNull" by simp
  ultimately show ?thesis by simp
qed

section \<open>Properties of the capture screen\<close>

subsection \<open>C8: two captures append two records\<close>

text \<open>
  Claim C8. Start from any persisted capture list \<open>xs\<close> (the empty list when nothing is
  stored). Two capture operations in sequence, each with the camera available and each
  ending with the success notice, leave under \<^verbatim>\<open>captures\<close> the list \<open>xs\<close> followed by two
  records in the order of the captures: two records in all when \<open>xs\<close> is empty. Each
  record holds the id selected at that capture, the name \<^verbatim>\<open>pokemon-<id>\<close>, the overlay sprite,
  the photo path (prefixed with \<^verbatim>\<open>file://\<close> on Android, unchanged otherwise) and the clock
  value read after the photo was taken.
\<close>

theorem two_captures_append_two_records:
  assumes "persisted_captures (storage w ''captures'') = Some xs"
    and "camera_current s1" and "captured (takeCapture env s1 w)"
    and "camera_current s2" and "captured (takeCapture env s2 (takeCapture env s1 w))"
  shows "\<exists>p1 p2.
           take_photo env (trace w) = Some p1
         \<and> take_photo env (trace (takeCapture env s1 w)) = Some p2
         \<and> storage (takeCapture env s2 (takeCapture env s1 w)) ''captures'' =
             Some (Json_text (JArr (xs @
               [CaptureRecord (selectedPokemonId s1)
                  (''pokemon-'' @ number_text (selectedPokemonId s1))
                  (selectedPokemonSprite s1)
                  (if platform_os env = ''android'' then ''file://'' @ p1 else p1)
                  (date_now env (trace w @ [TakePhoto])),
                CaptureRecord (selectedPokemonId s2)
                  (''pokemon-'' @ number_text (selectedPokemonId s2))
                  (selectedPokemonSprite s2)
                  (if platform_os env = ''android'' then ''file://'' @ p2 else p2)
                  (date_now env (trace (takeCapture env s1 w) @ [TakePhoto]))])))"
proof -
  from takeCapture_captured [OF assms(2,3,1)] obtain p1 where p1: "take_photo env (trace w) = Some p1"
    and st1: "storage (takeCapture env s1 w) = (storage w)(''captures'' \<mapsto> Json_text (JArr (xs @
           [CaptureRecord (selectedPokemonId s1)
              (''pokemon-'' @ number_text (selectedPokemonId s1))
              (selectedPokemonSprite s1)
              (if platform_os env = ''android'' then ''file://'' @ p1 else p1)
              (date_now env (trace w @ [TakePhoto]))])))"
    by blast
  from st1 have "persisted_captures (storage (takeCapture env s1 w) ''captures'') =
      Some (xs @ [CaptureRecord (selectedPokemonId s1)
              (''pokemon-'' @ number_text (selectedPokemonId s1))
              (selectedPokemonSprite s1)
              (if platform_os env = ''android'' then ''file://'' @ p1 else p1)
              (date_now env (trace w @ [TakePhoto]))])"
    by simp
  from takeCapture_captured [OF assms(4,5) this] p1 show ?thesis by auto
qed

text \<open>Witness for C8: two captures on Android, starting from an empty store.\<close>

theorem two_captures_append_two_records_witness:
  "storage (takeCapture (steady_env []) second_screen
              (takeCapture (steady_env []) first_screen empty_world)) ''captures'' =
     Some (Json_text (JArr
       [CaptureRecord 25 ''pokemon-25'' None ''file:///data/photo.jpg'' 1700000000001,
        CaptureRecord 7 ''pokemon-7'' (Some ''url7'') ''file:///data/photo.jpg'' 1700000000005]))"
proof -
  let ?env = "steady_env []"
  let ?w1 = "takeCapture ?env first_screen empty_world"
  have start: "persisted_captures (storage empty_world ''captures'') = Some []"
    by (simp add: empty_world_def)
  have cam1: "camera_current first_screen" by (simp add: first_screen_def)
  have cam2: "camera_current second_screen" by (simp add: second_screen_def)
  have ok1: "captured ?w1" by code_simp
  have ok2: "captured (takeCapture ?env second_screen ?w1)" by code_simp
  have photo: "\<And>h. take_photo ?env h = Some ''/data/photo.jpg''" by (simp add: steady_env_def)
  have os: "platform_os ?env = ''android''" by (simp add: steady_env_def)
  have t1: "date_now ?env (trace empty_world @ [TakePhoto]) = 1700000000001" by code_simp
  have t2: "date_now ?env (trace ?w1 @ [TakePhoto]) = 1700000000005" by code_simp
  have n1: "''pokemon-'' @ number_text (selectedPokemonId first_screen) = ''pokemon-25''"
    by code_simp
  have n2: "''pokemon-'' @ number_text (selectedPokemonId second_screen) = ''pokemon-7''"
    by code_simp
  from two_captures_append_two_records [OF start cam1 ok1 cam2 ok2]
  show ?thesis
    unfolding photo os t1 t2 n1 n2
    by (simp add: first_screen_def second_screen_def)
qed

subsection \<open>C9: a null result leaves the cache as it was\<close>

text \<open>
  Claim C9. Whenever \<^verbatim>\<open>fetchPokemonDetail\<close> returns \<^verbatim>\<open>null\<close>, the store after the call is the
  store before it: in particular the entry of a key that was not cached is still absent. A
  write that fails leaves the store as it was, so the cache changes only when a non-null
  entry is returned.
\<close>

theorem null_result_leaves_cache:
  assumes "fst (fetchPokemonDetail env k w) = VNull"
  shows "storage (snd (fetchPokemonDetail env k w)) = storage w"
proof (cases "cached_value (fst (getItem env (detail_cache_key k) w))")
  case (Some v)
  then show ?thesis by (simp add: fetchPokemonDetail_hit [OF Some])
next
  case None
  let ?w1 = "w\<lparr>trace := trace w @ [GetItem (detail_cache_key k)]\<rparr>"
  from assms have "isl (fst (detail_from_network env k (detail_cache_key k) ?w1))"
    using fetchPokemonDetail_null_isl(1) [OF None] by simp
  then obtain e w' where "detail_from_network env k (detail_cache_key k) ?w1 = (Inl e, w')"
    by (cases "detail_from_network env k (detail_cache_key k) ?w1";
        cases "fst (detail_from_network env k (detail_cache_key k) ?w1)") auto
  then show ?thesis
    using detail_from_network_Inl [of env k "detail_cache_key k" ?w1 e w']
    by (simp add: fetchPokemonDetail_null_isl(2) [OF None])
qed

text \<open>Witness for C9: a network that rejects every request, on the uncached key 25.\<close>

theorem null_result_leaves_cache_witness:
  "storage empty_world (detail_cache_key (VInt 25)) = None
   \<and> fst (fetchPokemonDetail (steady_env []) (VInt 25) empty_world) = VNull
   \<and> storage (snd (fetchPokemonDetail (steady_env []) (VInt 25) empty_world))
       = storage empty_world"
proof -
  have uncached: "storage empty_world (detail_cache_key (VInt 25)) = None"
    by (simp add: empty_world_def)
  have null: "fst (fetchPokemonDetail (steady_env []) (VInt 25) empty_world) = VNull"
    by code_simp
  from null_result_leaves_cache [OF null] uncached null show ?thesis by simp
qed

subsection \<open>C10: no camera, no capture\<close>

text \<open>
  Claim C10. When \<^verbatim>\<open>camera.current\<close> is not set, \<^verbatim>\<open>takeCapture\<close> returns at once and the
  world is as before: no photo is taken, \<^verbatim>\<open>captures\<close> is neither read nor written, and no
  notice is shown.
\<close>

theorem takeCapture_without_camera:
  "\<not> camera_current scr \<Longrightarrow> takeCapture env scr w = w"
  by (simp add: takeCapture_def)

text \<open>Witness for C10: the first screen without its camera, on the empty world.\<close>

theorem takeCapture_without_camera_witness:
  "\<not> camera_current (first_screen\<lparr>camera_current := False\<rparr>)
   \<and> takeCapture (steady_env []) (first_screen\<lparr>camera_current := False\<rparr>) empty_world
       = empty_world"
  using takeCapture_without_camera
    [of "first_screen\<lparr>camera_current := False\<rparr>" "steady_env []" empty_world]
  by simp

end
